theory Spec2Isabelle
  imports Complex_Main
begin

section \<open>Values shared by the relay and the browser page\<close>

text \<open>
  The JavaScript values the relay and the page handle as JSON: \<open>response.data\<close> as
  axios has parsed it from a body, and the argument of \<open>res.json(...)\<close>. A number is
  the value of a double, written as the rational it denotes; an object is the list of
  its properties in property order, with distinct keys. What a body's text loses when it
  is parsed (digits beyond a double, repeated keys) is lost before these values exist.
\<close>

datatype json =
    JNull
  | JBool bool
  | JNum rat
  | JStr string
  | JArr "json list"
  | JObj "(string \<times> json) list"

text \<open>Property access \<open>o.k\<close>: \<open>None\<close> is JavaScript's \<open>undefined\<close>.\<close>

fun field :: "json \<Rightarrow> string \<Rightarrow> json option" where
  "field (JObj kvs) k = map_of kvs k"
| "field _ k = None"

fun keys :: "json \<Rightarrow> string list" where
  "keys (JObj kvs) = map fst kvs"
| "keys _ = []"

text \<open>
  \<open>a || b\<close> on a string that may be \<open>undefined\<close>: \<open>undefined\<close> and the empty
  string are falsy, every other string is truthy.
\<close>

definition or_string :: "string option \<Rightarrow> string \<Rightarrow> string" where
  "or_string a b = (case a of None \<Rightarrow> b | Some s \<Rightarrow> if s = [] then b else s)"

type_synonym bytes = "nat list"

text \<open>The server's disk: a store from paths to file contents.\<close>

type_synonym disk = "string \<Rightarrow> bytes option"

section \<open>The relay: \<open>backend/nodeServer\<close>\<close>

subsection \<open>Requests, uploads and responses\<close>

text \<open>
  A request as it arrives at a route: at most one file part (a part with a file name),
  under some field name, and the two text fields the handlers read.
\<close>

record raw_request =
  file_part :: "(string \<times> bytes) option"
  raw_mode :: "string option"
  raw_imagePath :: "string option"

text \<open>
  \<open>req.file\<close> after the upload middleware: disk storage gives the file a \<open>path\<close>,
  memory storage a \<open>buffer\<close>.
\<close>

record disk_file =
  path :: string

record mem_file =
  buffer :: bytes

record 'f request =
  req_file :: "'f option"
  body_mode :: "string option"
  body_imagePath :: "string option"

record response =
  status :: nat
  body :: json

definition reply :: "nat \<Rightarrow> json \<Rightarrow> response" where
  "reply c j = \<lparr>status = c, body = j\<rparr>"

text \<open>
  \<open>form-data\<close> parts built by the handlers: a read stream of a path on the disk, a
  buffer with its file name and content type, or a text field.
\<close>

datatype form_part =
    FStream string string
  | FBuffer string bytes string string
  | FField string string

text \<open>
  \<open>await axios.post(url, form, ...)\<close> either resolves with \<open>response.data\<close> or
  rejects with an error whose \<open>message\<close> the handlers read. The transport and the
  engine behind it are a parameter of every handler.
\<close>

datatype axios_result = Resolved json | Rejected string

type_synonym transport = "string \<Rightarrow> form_part list \<Rightarrow> disk \<Rightarrow> axios_result"

text \<open>
  What lies behind axios: the network and the server at a URL either answer with a
  status code and a body (here the value axios parses from it), or cannot be reached,
  for a reason that becomes the error's message.
\<close>

datatype http_outcome = Answered nat json | Unreachable string

type_synonym network = "string \<Rightarrow> form_part list \<Rightarrow> disk \<Rightarrow> http_outcome"

text \<open>A number in decimal, as a template string prints it.\<close>

function decimal :: "nat \<Rightarrow> string" where
  "decimal n =
     (if n < 10 then [''0123456789'' ! n]
      else decimal (n div 10) @ [''0123456789'' ! (n mod 10)])"
  by pat_completeness auto
termination
  by (relation "measure id") auto

declare decimal.simps [simp del]

text \<open>
  \<open>axios.post\<close> over a network. axios is a package the server requires, not a file
  of the repository; it is written here as the package behaves: a URL without a scheme
  (no colon in it, as \<open>undefined/analyze\<close>) is refused with \<open>Invalid URL\<close> before
  anything is sent; an answer with a status from 200 to 299 resolves with its body; any
  other answer rejects with \<open>Request failed with status code N\<close>.
\<close>

definition axios_post :: "network \<Rightarrow> transport" where
  "axios_post net url form d =
     (if CHR '':'' \<notin> set url then Rejected ''Invalid URL''
      else
        (case net url form d of
           Unreachable msg \<Rightarrow> Rejected msg
         | Answered code dat \<Rightarrow>
             if 200 \<le> code \<and> code < 300 then Resolved dat
             else Rejected (''Request failed with status code '' @ decimal code)))"

text \<open>The message of the \<open>TypeError\<close> raised by \<open>req.file.p\<close> when \<open>req.file\<close> is undefined.\<close>

definition undefined_property :: "string \<Rightarrow> string" where
  "undefined_property p =
     ''Cannot read properties of undefined (reading '' @ [CHR 0x27] @ p @ [CHR 0x27] @ '')''"

definition enoent :: "string \<Rightarrow> string" where
  "enoent p = ''ENOENT: no such file or directory, unlink '' @ [CHR 0x27] @ p @ [CHR 0x27]"

text \<open>\<open>fs.unlinkSync(p)\<close>: removes the file, or throws when there is none.\<close>

definition unlinkSync :: "string \<Rightarrow> disk \<Rightarrow> string + disk" where
  "unlinkSync p d = (if d p = None then Inl (enoent p) else Inr (d(p := None)))"

subsection \<open>The upload middleware\<close>

text \<open>
  The routes put \<open>multer(...).single(name)\<close> in front of their handlers. \<open>multer\<close>
  is a package the server requires, not a file of the repository; the middleware is
  written here as the package documents it: \<open>single(name)\<close> accepts one file, under
  the field \<open>name\<close>, and stores it in \<open>req.file\<close>; a file part under any other
  field name is refused with the \<open>MulterError\<close> of code \<open>LIMIT_UNEXPECTED_FILE\<close>,
  whose message is \<open>Unexpected field\<close>. The route's handler is then skipped and the
  error goes to the router's error middleware, which \<open>videoRoutes.js\<close> defines for
  \<open>MulterError\<close>. A request without a file part passes with \<open>req.file\<close> undefined.
\<close>

datatype multer_error = LIMIT_UNEXPECTED_FILE string

fun message :: "multer_error \<Rightarrow> string" where
  "message (LIMIT_UNEXPECTED_FILE f) = ''Unexpected field''"

text \<open>\<open>multer({ storage: multer.memoryStorage() }).single(name)\<close>\<close>

definition single_memory :: "string \<Rightarrow> raw_request \<Rightarrow> multer_error + mem_file request" where
  "single_memory name r =
     (case file_part r of
        None \<Rightarrow>
          Inr \<lparr>req_file = None, body_mode = raw_mode r, body_imagePath = raw_imagePath r\<rparr>
      | Some (fld, content) \<Rightarrow>
          if fld = name
          then Inr \<lparr>req_file = Some \<lparr>buffer = content\<rparr>, body_mode = raw_mode r,
                    body_imagePath = raw_imagePath r\<rparr>
          else Inl (LIMIT_UNEXPECTED_FILE fld))"

text \<open>
  \<open>multer({ dest: dir }).single(name)\<close>: the file is written under \<open>dir\<close> with a
  generated name, here the parameter \<open>fresh\<close>.
\<close>

definition single_disk ::
  "string \<Rightarrow> string \<Rightarrow> string \<Rightarrow> raw_request \<Rightarrow> disk \<Rightarrow> multer_error + (disk_file request \<times> disk)" where
  "single_disk dir name fresh r d =
     (case file_part r of
        None \<Rightarrow>
          Inr (\<lparr>req_file = None, body_mode = raw_mode r, body_imagePath = raw_imagePath r\<rparr>, d)
      | Some (fld, content) \<Rightarrow>
          if fld = name
          then Inr (\<lparr>req_file = Some \<lparr>path = dir @ fresh\<rparr>, body_mode = raw_mode r,
                     body_imagePath = raw_imagePath r\<rparr>,
                    d(dir @ fresh \<mapsto> content))
          else Inl (LIMIT_UNEXPECTED_FILE fld))"

text \<open>
  The router's last layer:
  \<^verbatim>\<open>if (error instanceof multer.MulterError) return res.status(400).json({ error: error.message })\<close>
\<close>

definition multer_error_middleware :: "multer_error \<Rightarrow> response" where
  "multer_error_middleware e = reply 400 (JObj [(''error'', JStr (message e))])"

subsection \<open>The controllers\<close>

definition failure :: "string \<Rightarrow> response" where
  "failure msg = reply 500 (JObj [(''success'', JBool False), (''error'', JStr msg)])"

text \<open>\<open>process.env.PYTHON_URL + '/analyze'\<close>; an unset variable concatenates as \<open>undefined\<close>.\<close>

definition pythonURL :: "string option \<Rightarrow> string" where
  "pythonURL env = (case env of None \<Rightarrow> ''undefined'' | Some u \<Rightarrow> u)"

text \<open>
  \<open>analyzeUploadedVideo\<close>. The whole body is inside \<open>try\<close>: every throw, also the one of
  \<open>req.file.path\<close> and the one of \<open>unlinkSync\<close>, ends in the \<open>catch\<close> branch, which
  answers 500 and touches nothing else.
\<close>

definition analyzeUploadedVideo ::
  "string option \<Rightarrow> transport \<Rightarrow> disk \<Rightarrow> disk_file request \<Rightarrow> disk \<times> response" where
  "analyzeUploadedVideo env post d req =
     (case req_file req of
        None \<Rightarrow> (d, failure (undefined_property ''path''))
      | Some f \<Rightarrow>
          (let filePath = path f;
               form = [FStream ''video'' filePath,
                       FField ''mode'' (or_string (body_mode req) ''squat'')]
           in case post (pythonURL env @ ''/analyze'') form d of
                Rejected msg \<Rightarrow> (d, failure msg)
              | Resolved dat \<Rightarrow>
                  (case unlinkSync filePath d of
                     Inl msg \<Rightarrow> (d, failure msg)
                   | Inr d' \<Rightarrow>
                       (d', reply 200 (JObj [(''success'', JBool True),
                                             (''flaskResponse'', dat)])))))"

text \<open>\<open>analyzeSingleFrame\<close>\<close>

definition analyzeSingleFrame :: "transport \<Rightarrow> disk \<Rightarrow> mem_file request \<Rightarrow> response" where
  "analyzeSingleFrame post d req =
     (case req_file req of
        None \<Rightarrow> failure (undefined_property ''buffer'')
      | Some f \<Rightarrow>
          (let imageBuffer = buffer f;
               mode = or_string (body_mode req) ''squat'';
               form = [FBuffer ''image'' imageBuffer ''frame.jpg'' ''image/jpeg'',
                       FField ''mode'' mode]
           in case post ''http://127.0.0.1:5001/frame'' form d of
                Rejected msg \<Rightarrow> failure msg
              | Resolved dat \<Rightarrow>
                  reply 200 (JObj [(''success'', JBool True), (''feedback'', dat)])))"

text \<open>
  The inline handler of \<open>/analyze-squat\<close> and \<open>/analyze-sit\<close> (they differ in the
  engine URL only). \<open>None\<close> as the response: the \<open>catch\<close> branch itself threw (its
  \<open>unlinkSync\<close> found no file), so the handler's promise rejects and nothing is sent.
\<close>

definition analyze_exercise ::
  "string \<Rightarrow> transport \<Rightarrow> disk \<Rightarrow> disk_file request \<Rightarrow> disk \<times> response option" where
  "analyze_exercise url post d req =
     (let imagePath =
            (case req_file req of
               Some f \<Rightarrow> Some (path f)
             | None \<Rightarrow>
                 (case body_imagePath req of
                    None \<Rightarrow> None
                  | Some p \<Rightarrow> if p = [] then None else Some p))
      in case imagePath of
           None \<Rightarrow> (d, Some (reply 400 (JObj [(''error'', JStr ''No image provided'')])))
         | Some p \<Rightarrow>
             (let catch = (\<lambda>msg.
                    case req_file req of
                      None \<Rightarrow> (d, Some (reply 500 (JObj [(''error'', JStr msg)])))
                    | Some f \<Rightarrow>
                        (case unlinkSync (path f) d of
                           Inl _ \<Rightarrow> (d, None)
                         | Inr d' \<Rightarrow> (d', Some (reply 500 (JObj [(''error'', JStr msg)])))))
              in case post url [FStream ''frame'' p] d of
                   Rejected msg \<Rightarrow> catch msg
                 | Resolved dat \<Rightarrow>
                     (case req_file req of
                        None \<Rightarrow> (d, Some (reply 200 dat))
                      | Some f \<Rightarrow>
                          (case unlinkSync p d of
                             Inl msg \<Rightarrow> catch msg
                           | Inr d' \<Rightarrow> (d', Some (reply 200 dat))))))"

subsection \<open>The routes of \<open>routes/videoRoutes.js\<close>\<close>

definition route_analyze ::
  "string option \<Rightarrow> transport \<Rightarrow> string \<Rightarrow> disk \<Rightarrow> raw_request \<Rightarrow> disk \<times> response" where
  "route_analyze env post fresh d r =
     (case single_disk ''uploads/'' ''video'' fresh r d of
        Inl e \<Rightarrow> (d, multer_error_middleware e)
      | Inr (req, d1) \<Rightarrow> analyzeUploadedVideo env post d1 req)"

definition route_frame :: "transport \<Rightarrow> disk \<Rightarrow> raw_request \<Rightarrow> response" where
  "route_frame post d r =
     (case single_memory ''image'' r of
        Inl e \<Rightarrow> multer_error_middleware e
      | Inr req \<Rightarrow> analyzeSingleFrame post d req)"

definition route_analyze_squat ::
  "transport \<Rightarrow> string \<Rightarrow> disk \<Rightarrow> raw_request \<Rightarrow> disk \<times> response option" where
  "route_analyze_squat post fresh d r =
     (case single_disk ''temp/'' ''frame'' fresh r d of
        Inl e \<Rightarrow> (d, Some (multer_error_middleware e))
      | Inr (req, d1) \<Rightarrow> analyze_exercise ''http://localhost:5001/analyze/squat'' post d1 req)"

section \<open>The posture-analysis engine\<close>

text \<open>
  The engine is the Flask service of \<open>backend/pythonApi\<close> (\<open>app.py\<close>, started by the
  Dockerfile). Its code is not among the sources: the relay above and the page below
  are its only callers there. This section models it from the specification; the
  landmark model, the angle geometry and the decoders are parameters.
\<close>

text \<open>Modelled from the spec: the mode selector of the engine's input, \<open>"squat" | "sitting"\<close>.\<close>

datatype mode = Squat | Sitting

text \<open>Modelled from the spec: the engine's reading of the mode string (absent \<open>app.py\<close>).\<close>

definition parse_mode :: "string \<Rightarrow> mode option" where
  "parse_mode s =
     (if s = ''squat'' then Some Squat else if s = ''sitting'' then Some Sitting else None)"

text \<open>Modelled from the spec: the error taxonomy of section 7 (absent \<open>app.py\<close>).\<close>

datatype error_kind = NoDetection | UnsupportedMode | InvalidInput | PartialJointMissing

text \<open>Modelled from the spec: the name under which an error of the taxonomy is reported.\<close>

fun error_text :: "error_kind \<Rightarrow> string" where
  "error_text NoDetection = ''NoDetection''"
| "error_text UnsupportedMode = ''UnsupportedMode''"
| "error_text InvalidInput = ''InvalidInput''"
| "error_text PartialJointMissing = ''PartialJointMissing''"

text \<open>Modelled from the spec: the Keypoint of section 3 (absent \<open>app.py\<close>).\<close>

record keypoint =
  landmark :: string
  kx :: rat
  ky :: rat
  kz :: "rat option"
  visibility :: rat

text \<open>Modelled from the spec: the AngleMeasurement of section 3: joint, degrees, validity flag.\<close>

record measurement =
  joint :: string
  degrees :: rat
  valid :: bool

text \<open>Modelled from the spec: what a rule accepts (4.2): a range, or a threshold with a direction.\<close>

datatype accepted = Range rat rat | AtLeast rat | AtMost rat

text \<open>Modelled from the spec: one row of a rule table (4.2, 9): joint-angle name, accepted range, Issue text.\<close>

record rule =
  on_joint :: string
  accepts :: accepted
  issue_text :: string

text \<open>Modelled from the spec: the status of a FrameVerdict (section 3).\<close>

datatype verdict_status = GoodForm | NeedsImprovement | PoorForm | AnalysisError

text \<open>Modelled from the spec: the status labels as the engine outputs them.\<close>

fun status_text :: "verdict_status \<Rightarrow> string" where
  "status_text GoodForm = ''Good Form''"
| "status_text NeedsImprovement = ''Needs Improvement''"
| "status_text PoorForm = ''Poor Form''"
| "status_text AnalysisError = ''Analysis Error''"

text \<open>Modelled from the spec: the FrameVerdict of section 3; a null score is \<open>None\<close>.\<close>

record FrameVerdict =
  v_status :: verdict_status
  v_details :: "string list"
  v_score :: "rat option"

text \<open>
  Modelled from the spec: the configuration the spec leaves open (rule tables, the
  ceiling of the issue count at which the score reaches 0, the sampling stride, the
  top-N of the ranking).
\<close>

record config =
  rule_table :: "mode \<Rightarrow> rule list"
  issue_ceiling :: nat
  stride :: nat
  top_n :: nat

text \<open>
  Modelled from the spec: the fixed penalty per issue \<open>k\<close>, calibrated so that 100
  becomes 0 once the issue count reaches the configured ceiling (a ceiling of 0 is read
  as 1).
\<close>

definition penalty :: "config \<Rightarrow> rat" where
  "penalty cfg = 100 / of_nat (max 1 (issue_ceiling cfg))"

text \<open>
  Modelled from the spec: the external capabilities the engine consumes: the Landmark
  Source (\<open>detect(image) -> keypoints | none\<close>), the Angle Calculator applied to the
  joints of a mode, and the image and video readers (frames and fps).
\<close>

record 'img source =
  detect :: "'img \<Rightarrow> keypoint list option"
  angles :: "mode \<Rightarrow> keypoint list \<Rightarrow> measurement list"
  read_image :: "bytes \<Rightarrow> 'img option"
  read_video :: "bytes \<Rightarrow> ('img list \<times> rat) option"

subsection \<open>Rule Evaluator\<close>

text \<open>Modelled from the spec: an accepted range, or a threshold with a direction (4.2).\<close>

fun in_accepted :: "accepted \<Rightarrow> rat \<Rightarrow> bool" where
  "in_accepted (Range lo hi) a = (lo \<le> a \<and> a \<le> hi)"
| "in_accepted (AtLeast t) a = (t \<le> a)"
| "in_accepted (AtMost t) a = (a \<le> t)"

text \<open>
  Modelled from the spec: the measurement of a joint that takes part in rule evaluation;
  a measurement with validity false is excluded (invariant of section 3).
\<close>

definition measured :: "measurement list \<Rightarrow> string \<Rightarrow> rat option" where
  "measured aset j =
     (case find (\<lambda>m. joint m = j) aset of
        None \<Rightarrow> None
      | Some m \<Rightarrow> if valid m then Some (degrees m) else None)"

text \<open>Modelled from the spec: a rule is violated when its measurement is outside the range.\<close>

definition violated :: "measurement list \<Rightarrow> rule \<Rightarrow> bool" where
  "violated aset r =
     (case measured aset (on_joint r) of None \<Rightarrow> False | Some a \<Rightarrow> \<not> in_accepted (accepts r) a)"

text \<open>
  Modelled from the spec: the walk over the rule table in its fixed order; each violated
  rule appends one Issue.
\<close>

definition issues_of :: "rule list \<Rightarrow> measurement list \<Rightarrow> string list" where
  "issues_of rules aset = map issue_text (filter (violated aset) rules)"

text \<open>Modelled from the spec: \<open>max(0, 100 - k * issueCount)\<close>.\<close>

definition score_of :: "rat \<Rightarrow> nat \<Rightarrow> rat" where
  "score_of k n = max 0 (100 - k * of_nat n)"

text \<open>Modelled from the spec: the fixed bands, 85 and 50.\<close>

definition band :: "rat \<Rightarrow> verdict_status" where
  "band s = (if 85 \<le> s then GoodForm else if 50 \<le> s then NeedsImprovement else PoorForm)"

text \<open>
  Modelled from the spec: \<open>evaluate(mode, angleSet) -> FrameVerdict\<close> of 4.2 (absent
  \<open>app.py\<close>). An angle set without any valid measurement gives "Analysis Error" and a
  null score.
\<close>

definition evaluate :: "config \<Rightarrow> mode \<Rightarrow> measurement list \<Rightarrow> FrameVerdict" where
  "evaluate cfg m aset =
     (if \<not> list_ex valid aset
      then \<lparr>v_status = AnalysisError, v_details = [], v_score = None\<rparr>
      else
        (let found = issues_of (rule_table cfg m) aset;
             s = score_of (penalty cfg) (length found)
         in \<lparr>v_status = band s, v_details = found, v_score = Some s\<rparr>))"

subsection \<open>Frame Analyzer\<close>

text \<open>Modelled from the spec: the joints the rules of a mode need (4.3).\<close>

definition required_joints :: "config \<Rightarrow> mode \<Rightarrow> string list" where
  "required_joints cfg m = remdups (map on_joint (rule_table cfg m))"

text \<open>
  Modelled from the spec: \<open>analyzeFrame(image, mode) -> FrameVerdict\<close> of 4.3 (absent
  \<open>app.py\<close>). No detection gives the "Analysis Error" verdict; when exactly one required
  joint has no valid measurement and others have, the remaining rules are evaluated and
  one Issue naming the joint is added.
\<close>

definition analyzeFrame :: "config \<Rightarrow> 'img source \<Rightarrow> 'img \<Rightarrow> mode \<Rightarrow> FrameVerdict" where
  "analyzeFrame cfg src img m =
     (case detect src img of
        None \<Rightarrow>
          \<lparr>v_status = AnalysisError, v_details = [''No pose detected''], v_score = None\<rparr>
      | Some kps \<Rightarrow>
          (let aset = angles src m kps;
               v = evaluate cfg m aset;
               req = required_joints cfg m
           in case filter (\<lambda>j. measured aset j = None) req of
                [j] \<Rightarrow>
                  if 1 < length req
                  then v\<lparr>v_details := v_details v @ [''Missing joint: '' @ j]\<rparr>
                  else v
              | _ \<Rightarrow> v))"

subsection \<open>Session Aggregator\<close>

text \<open>
  Modelled from the spec: the sampling policy of 4.4, every \<open>n\<close>-th frame starting
  with the first (a stride of 0 is read as 1).
\<close>

fun sample :: "nat \<Rightarrow> 'a list \<Rightarrow> 'a list" where
  "sample n [] = []"
| "sample n (f # fs) = f # sample n (drop (n - 1) fs)"

text \<open>
  Modelled from the spec: the running aggregates of 4.4: the issue-frequency counter
  keyed by Issue text (in first-seen order), the running score sum over the frames that
  have a score, the status-band counter, the undetected-frame tally, the number of
  analyzed frames and of issue occurrences.
\<close>

record aggregates =
  issue_counts :: "(string \<times> nat) list"
  score_sum :: rat
  scored :: nat
  band_counts :: "(verdict_status \<times> nat) list"
  undetected :: nat
  analyzed :: nat
  occurrences :: nat

text \<open>Modelled from the spec: the aggregates before the first frame.\<close>

definition start :: aggregates where
  "start = \<lparr>issue_counts = [], score_sum = 0, scored = 0, band_counts = [],
            undetected = 0, analyzed = 0, occurrences = 0\<rparr>"

text \<open>Modelled from the spec: one more occurrence of a key in a counter.\<close>

fun bump :: "'k \<Rightarrow> ('k \<times> nat) list \<Rightarrow> ('k \<times> nat) list" where
  "bump k [] = [(k, 1)]"
| "bump k ((k', n) # kvs) = (if k = k' then (k', Suc n) # kvs else (k', n) # bump k kvs)"

text \<open>
  Modelled from the spec: folding one FrameVerdict into the aggregates. A verdict
  without a score is excluded from the score sum and counted as undetected.
\<close>

definition account :: "aggregates \<Rightarrow> FrameVerdict \<Rightarrow> aggregates" where
  "account a v =
     a\<lparr>issue_counts := fold bump (v_details v) (issue_counts a),
       score_sum := (case v_score v of None \<Rightarrow> score_sum a | Some s \<Rightarrow> score_sum a + s),
       scored := (case v_score v of None \<Rightarrow> scored a | Some s \<Rightarrow> Suc (scored a)),
       band_counts := bump (v_status v) (band_counts a),
       undetected := (case v_score v of None \<Rightarrow> Suc (undetected a) | Some s \<Rightarrow> undetected a),
       analyzed := Suc (analyzed a),
       occurrences := occurrences a + length (v_details v)\<rparr>"

text \<open>
  Modelled from the spec: the ranking, descending by count, ties in first-seen order.
\<close>

fun insert_ranked :: "string \<times> nat \<Rightarrow> (string \<times> nat) list \<Rightarrow> (string \<times> nat) list" where
  "insert_ranked e [] = [e]"
| "insert_ranked e (c # cs) =
     (if snd e \<le> snd c then c # insert_ranked e cs else e # c # cs)"

text \<open>Modelled from the spec: the counter sorted by the insertion above, entry by entry in first-seen order.\<close>

definition ranked :: "(string \<times> nat) list \<Rightarrow> (string \<times> nat) list" where
  "ranked cs = foldl (\<lambda>acc e. insert_ranked e acc) [] cs"

text \<open>Modelled from the spec: the overall status, score and details of a SessionReport.\<close>

record overall =
  o_status :: verdict_status
  o_score :: "rat option"
  o_details :: "string list"

text \<open>Modelled from the spec: the video statistics of the SessionReport (3, 4.4, 6).\<close>

record video_stats =
  duration :: rat
  total_frames :: nat
  analyzed_frames :: nat
  fps :: rat
  average_issues_per_frame :: rat
  undetected_frames :: nat

text \<open>Modelled from the spec: the SessionReport of section 3, with the three parts of the video output.\<close>

record SessionReport =
  overall_analysis :: overall
  stats :: video_stats
  most_common_issues :: "(string \<times> nat) list"

text \<open>
  Modelled from the spec: the report made from the final aggregates. The overall score
  is the mean over the frames that have a score, null when there is none; the details
  are the most frequent issues.
\<close>

definition finish :: "config \<Rightarrow> nat \<Rightarrow> rat \<Rightarrow> aggregates \<Rightarrow> SessionReport" where
  "finish cfg nframes rate a =
     (let top = take (top_n cfg) (ranked (issue_counts a));
          mean = (if scored a = 0 then None
                  else Some (score_sum a / of_nat (scored a)))
      in \<lparr>overall_analysis =
            \<lparr>o_status = (case mean of None \<Rightarrow> AnalysisError | Some s \<Rightarrow> band s),
             o_score = mean,
             o_details = map fst top\<rparr>,
          stats =
            \<lparr>duration = (if rate = 0 then 0 else of_nat nframes / rate),
             total_frames = nframes,
             analyzed_frames = analyzed a,
             fps = rate,
             average_issues_per_frame =
               (if analyzed a = 0 then 0 else of_nat (occurrences a) / of_nat (analyzed a)),
             undetected_frames = undetected a\<rparr>,
          most_common_issues = top\<rparr>)"

text \<open>
  Modelled from the spec: \<open>analyzeVideo(frames, fps, mode) -> SessionReport\<close> of 4.4
  (absent \<open>app.py\<close>): a reduction over the sampled frames, then the report.
\<close>

definition analyzeVideo ::
  "config \<Rightarrow> 'img source \<Rightarrow> 'img list \<Rightarrow> rat \<Rightarrow> mode \<Rightarrow> SessionReport" where
  "analyzeVideo cfg src frames rate m =
     finish cfg (length frames) rate
       (foldl (\<lambda>a f. account a (analyzeFrame cfg src f m)) start (sample (stride cfg) frames))"

subsection \<open>The engine's interface\<close>

text \<open>
  Modelled from the spec: the frame operation at the engine's input boundary (section
  6): an invalid mode is \<open>UnsupportedMode\<close>, an unreadable image \<open>InvalidInput\<close>.
\<close>

definition engine_frame ::
  "config \<Rightarrow> 'img source \<Rightarrow> bytes \<Rightarrow> string \<Rightarrow> error_kind + FrameVerdict" where
  "engine_frame cfg src raw ms =
     (case parse_mode ms of
        None \<Rightarrow> Inl UnsupportedMode
      | Some m \<Rightarrow>
          (case read_image src raw of
             None \<Rightarrow> Inl InvalidInput
           | Some img \<Rightarrow> Inr (analyzeFrame cfg src img m)))"

text \<open>Modelled from the spec: the video operation at the input boundary (section 6), as the frame operation above.\<close>

definition engine_video ::
  "config \<Rightarrow> 'img source \<Rightarrow> bytes \<Rightarrow> string \<Rightarrow> error_kind + SessionReport" where
  "engine_video cfg src raw ms =
     (case parse_mode ms of
        None \<Rightarrow> Inl UnsupportedMode
      | Some m \<Rightarrow>
          (case read_video src raw of
             None \<Rightarrow> Inl InvalidInput
           | Some (frames, rate) \<Rightarrow> Inr (analyzeVideo cfg src frames rate m)))"

text \<open>
  Modelled from the spec: the engine's JSON output (section 6):
  \<open>{status, score|null, details: [string...]}\<close> for a frame and
  \<open>{overall_analysis, video_stats, most_common_issues: [{issue, count}...]}\<close> for a video;
  the undetected-frame tally is surfaced among the statistics when it is not zero.
\<close>

definition encode_verdict :: "FrameVerdict \<Rightarrow> json" where
  "encode_verdict v =
     JObj [(''status'', JStr (status_text (v_status v))),
           (''score'', (case v_score v of None \<Rightarrow> JNull | Some s \<Rightarrow> JNum s)),
           (''details'', JArr (map JStr (v_details v)))]"

text \<open>Modelled from the spec: the video output of section 6, as the frame output above.\<close>

definition encode_report :: "SessionReport \<Rightarrow> json" where
  "encode_report r =
     (let ov = overall_analysis r; s = stats r
      in JObj
          [(''overall_analysis'',
              JObj [(''status'', JStr (status_text (o_status ov))),
                    (''score'', (case o_score ov of None \<Rightarrow> JNull | Some x \<Rightarrow> JNum x)),
                    (''details'', JArr (map JStr (o_details ov)))]),
           (''video_stats'',
              JObj ([(''duration'', JNum (duration s)),
                     (''total_frames'', JNum (of_nat (total_frames s))),
                     (''analyzed_frames'', JNum (of_nat (analyzed_frames s))),
                     (''fps'', JNum (fps s)),
                     (''average_issues_per_frame'', JNum (average_issues_per_frame s))]
                    @ (if undetected_frames s = 0 then []
                       else [(''undetected_frames'', JNum (of_nat (undetected_frames s)))]))),
           (''most_common_issues'',
              JArr (map (\<lambda>(i, c). JObj [(''issue'', JStr i), (''count'', JNum (of_nat c))])
                        (most_common_issues r)))])"

text \<open>
  Modelled from the spec: the engine as a server (absent \<open>app.py\<close>). A form with an
  image buffer and a mode is a frame request, a form with a video stream and a mode a
  video request (the stream reads the file from the disk). A result is answered with
  status 200 and its JSON. The spec leaves the framing of a failed request open: here an
  error of the engine is answered with status 400 and the body \<open>{error: name}\<close>.
\<close>

definition refused :: "error_kind \<Rightarrow> http_outcome" where
  "refused e = Answered 400 (JObj [(''error'', JStr (error_text e))])"

fun engine_server :: "config \<Rightarrow> 'img source \<Rightarrow> network" where
  "engine_server cfg src url [FBuffer n raw fname ctype, FField k ms] d =
     (if n = ''image'' \<and> k = ''mode''
      then (case engine_frame cfg src raw ms of
              Inl e \<Rightarrow> refused e
            | Inr v \<Rightarrow> Answered 200 (encode_verdict v))
      else refused InvalidInput)"
| "engine_server cfg src url [FStream n p, FField k ms] d =
     (if n = ''video'' \<and> k = ''mode''
      then (case d p of
              None \<Rightarrow> refused InvalidInput
            | Some raw \<Rightarrow>
                (case engine_video cfg src raw ms of
                   Inl e \<Rightarrow> refused e
                 | Inr r \<Rightarrow> Answered 200 (encode_report r)))
      else refused InvalidInput)"
| "engine_server cfg src url form d = refused InvalidInput"

text \<open>Modelled from the spec: the engine as the relay reaches it, through axios.\<close>

definition engine_transport :: "config \<Rightarrow> 'img source \<Rightarrow> transport" where
  "engine_transport cfg src = axios_post (engine_server cfg src)"

section \<open>The browser page: \<open>RecordPage\<close>\<close>

subsection \<open>JavaScript values on the page\<close>

text \<open>Truthiness of a JSON value; \<open>a || b\<close> where \<open>a\<close> may be \<open>undefined\<close>.\<close>

fun truthy :: "json \<Rightarrow> bool" where
  "truthy JNull = False"
| "truthy (JBool b) = b"
| "truthy (JNum n) = (n \<noteq> 0)"
| "truthy (JStr s) = (s \<noteq> [])"
| "truthy (JArr xs) = True"
| "truthy (JObj kvs) = True"

definition or_else :: "json option \<Rightarrow> json \<Rightarrow> json" where
  "or_else a b = (case a of None \<Rightarrow> b | Some v \<Rightarrow> if truthy v then v else b)"

text \<open>\<open>xs.join(sep)\<close> on an array of strings.\<close>

fun join :: "string \<Rightarrow> string list \<Rightarrow> string" where
  "join sep [] = []"
| "join sep [s] = s"
| "join sep (s # t # ts) = s @ sep @ join sep (t # ts)"

text \<open>
  The object given to \<open>setLiveFeedback\<close>. A field is \<open>None\<close> when the expression that
  fills it is \<open>undefined\<close>.
\<close>

record live_feedback =
  fb_status :: "json option"
  fb_details :: "json option"
  fb_score :: "json option"

subsection \<open>State\<close>

text \<open>
  The running \<open>setInterval\<close> timer: its delay and the \<open>recordingMode\<close> its callback
  closed over when the effect created it.
\<close>

record timer =
  delay_ms :: nat
  captured_mode :: string

text \<open>
  The \<open>useState\<close> cells of the component, in their order, and the timer behind
  \<open>frameAnalysisInterval\<close>. A held media stream is \<open>Some\<close> of a handle.
\<close>

record page =
  activeTab :: string
  recordingMode :: string
  isAnalyzing :: bool
  liveFeedback :: "live_feedback option"
  analysisResults :: "json option"
  uploadedVideoURL :: "string option"
  isRecording :: bool
  liveVideoStream :: "nat option"
  isLiveAnalysisActive :: bool
  feedback :: json
  frameAnalysisInterval :: "timer option"

definition initial_page :: page where
  "initial_page =
     \<lparr>activeTab = ''webcam'', recordingMode = ''squat'', isAnalyzing = False,
      liveFeedback = None, analysisResults = None, uploadedVideoURL = None,
      isRecording = False, liveVideoStream = None, isLiveAnalysisActive = False,
      feedback = JArr [], frameAnalysisInterval = None\<rparr>"

subsection \<open>Events and requests\<close>

text \<open>The body of an error response, read at its \<open>error\<close> string and its \<open>details\<close> strings.\<close>

record error_body =
  eb_error :: "string option"
  eb_details :: "string list option"

text \<open>
  What \<open>axios.post\<close> gives the live callback: \<open>res.data\<close>, or an error with
  \<open>err.response.data\<close> (when there is a response with a body) and \<open>err.message\<close>.
\<close>

datatype frame_outcome = FrameOk json | FrameFailed "error_body option" string

text \<open>
  What \<open>fetch\<close> gives \<open>handleVideoUpload\<close>: the parsed body of an ok response, or the
  message of the error thrown on the way (\<open>Analysis failed\<close> for a response that is not ok).
\<close>

datatype video_outcome = VideoOk json | VideoFailed string

datatype event =
    ClickSquat
  | ClickSitting
  | ClickWebcamTab
  | ClickUploadTab
  | SelectVideo string
  | VideoResponse video_outcome
  | ClickStartStop "nat option"
  | ClickToggleLive
  | ClickRemoveVideo
  | Tick bool bool
  | FrameResponse frame_outcome

text \<open>A request the page sends: the route, the field the file is appended under, the mode.\<close>

record page_request =
  route :: string
  upload_field :: string
  mode_field :: string

subsection \<open>The live frame analysis effect\<close>

text \<open>\<open>videoRef.current\<close> is set while one of the two \<open>video\<close> elements is rendered.\<close>

definition video_mounted :: "page \<Rightarrow> bool" where
  "video_mounted p =
     ((activeTab p = ''webcam'' \<and> liveVideoStream p \<noteq> None) \<or> uploadedVideoURL p \<noteq> None)"

text \<open>
  After a render in which \<open>isLiveAnalysisActive\<close>, \<open>liveVideoStream\<close> or \<open>recordingMode\<close>
  changed, the previous timer is cleared and the effect runs again:
  \<^verbatim>\<open>if (isLiveAnalysisActive && videoRef.current && canvasRef.current && liveVideoStream)
    frameAnalysisInterval.current = setInterval(() => {...}, 600)\<close>
\<close>

definition live_effect :: "page \<Rightarrow> page \<Rightarrow> page" where
  "live_effect old new =
     (if isLiveAnalysisActive old = isLiveAnalysisActive new
         \<and> liveVideoStream old = liveVideoStream new
         \<and> recordingMode old = recordingMode new
      then new
      else new\<lparr>frameAnalysisInterval :=
                 (if isLiveAnalysisActive new \<and> video_mounted new \<and> liveVideoStream new \<noteq> None
                  then Some \<lparr>delay_ms = 600, captured_mode = recordingMode new\<rparr>
                  else None)\<rparr>)"

text \<open>
  The timer's callback: when the video has enough data and the canvas gives a blob, the
  frame is posted. Nothing in it looks at earlier requests.
\<close>

definition on_tick :: "page \<Rightarrow> bool \<Rightarrow> bool \<Rightarrow> page_request list" where
  "on_tick p ready blob =
     (case frameAnalysisInterval p of
        None \<Rightarrow> []
      | Some t \<Rightarrow>
          if video_mounted p \<and> ready \<and> blob
          then [\<lparr>route = ''/api/video/frame'', upload_field = ''frame'',
                  mode_field = captured_mode t\<rparr>]
          else [])"

text \<open>The \<open>catch\<close> branch of the live callback.\<close>

definition live_error_message :: "error_body option \<Rightarrow> string \<Rightarrow> string" where
  "live_error_message dat msg =
     (case dat of
        Some b \<Rightarrow>
          (case eb_error b of
             Some e \<Rightarrow>
               if e \<noteq> [] then e
               else (case eb_details b of
                       Some ds \<Rightarrow> join '', '' ds
                     | None \<Rightarrow> ''Unable to analyze current frame'')
           | None \<Rightarrow>
               (case eb_details b of
                  Some ds \<Rightarrow> join '', '' ds
                | None \<Rightarrow> ''Unable to analyze current frame''))
      | None \<Rightarrow> if msg \<noteq> [] then msg else ''Unable to analyze current frame'')"

definition live_failed :: "page \<Rightarrow> string \<Rightarrow> page" where
  "live_failed p errorMsg =
     p\<lparr>liveFeedback :=
         Some \<lparr>fb_status = Some (JStr ''Analysis Error''),
               fb_details = Some (JArr [JStr errorMsg]),
               fb_score = Some JNull\<rparr>\<rparr>"

text \<open>
  The callback after \<open>await axios.post\<close>. Reading a property of a \<open>null\<close> body throws
  inside the \<open>try\<close> and ends in the same \<open>catch\<close>.
\<close>

definition on_frame_response :: "page \<Rightarrow> frame_outcome \<Rightarrow> page" where
  "on_frame_response p out =
     (case out of
        FrameOk dat \<Rightarrow>
          if dat = JNull
          then live_failed p (live_error_message None
                 (''Cannot read properties of null (reading '' @ [CHR 0x27] @ ''status''
                  @ [CHR 0x27] @ '')''))
          else
            p\<lparr>liveFeedback :=
                Some \<lparr>fb_status = Some (or_else (field dat ''status'') (JStr ''Analyzing...'')),
                      fb_details = Some (or_else (field dat ''feedback'')
                                          (or_else (field dat ''details'') (JArr []))),
                      fb_score = Some (or_else (field dat ''score'') JNull)\<rparr>,
              feedback := or_else (field dat ''feedback'') (JArr [])\<rparr>
      | FrameFailed dat msg \<Rightarrow> live_failed p (live_error_message dat msg))"

subsection \<open>\<open>handleVideoUpload\<close>\<close>

text \<open>
  Up to the \<open>await fetch\<close>: the mode sent is the \<open>recordingMode\<close> of the render the
  handler belongs to. The video request goes to \<open>http://localhost:5001\<close>, the frame
  requests to \<open>VITE_BACKEND_URL\<close>; \<open>route\<close> keeps the path.
\<close>

definition upload_started :: "page \<Rightarrow> string \<Rightarrow> page \<times> page_request list" where
  "upload_started p localURL =
     (p\<lparr>uploadedVideoURL := Some localURL, isAnalyzing := True,
        liveFeedback := None, analysisResults := None\<rparr>,
      [\<lparr>route = ''/api/video/analyze'', upload_field = ''video'',
        mode_field = recordingMode p\<rparr>])"

text \<open>The \<open>catch\<close> branch of \<open>handleVideoUpload\<close>, then its \<open>finally\<close>.\<close>

definition upload_failed :: "page \<Rightarrow> string \<Rightarrow> page" where
  "upload_failed p msg =
     p\<lparr>liveFeedback :=
         Some \<lparr>fb_status = Some (JStr ''Analysis Error''),
               fb_details = Some (JArr [JStr (if msg \<noteq> [] then msg
                                              else ''Analysis failed. Please try again.'')]),
               fb_score = Some (JNum 0)\<rparr>,
       isAnalyzing := False\<rparr>"

text \<open>
  After the \<open>await\<close>. A body that parses to \<open>null\<close> is stored, and reading its
  \<open>overall_analysis\<close> throws into the \<open>catch\<close> branch.
\<close>

definition on_video_response :: "page \<Rightarrow> video_outcome \<Rightarrow> page" where
  "on_video_response p out =
     (case out of
        VideoFailed msg \<Rightarrow> upload_failed p msg
      | VideoOk result \<Rightarrow>
          if result = JNull
          then upload_failed (p\<lparr>analysisResults := None\<rparr>)
                 (''Cannot read properties of null (reading '' @ [CHR 0x27]
                  @ ''overall_analysis'' @ [CHR 0x27] @ '')'')
          else
            (let q = p\<lparr>analysisResults := Some result\<rparr>;
                 q' = (case field result ''overall_analysis'' of
                         None \<Rightarrow> q
                       | Some oa \<Rightarrow>
                           if truthy oa
                           then q\<lparr>liveFeedback :=
                                    Some \<lparr>fb_status = field oa ''status'',
                                          fb_details = field oa ''details'',
                                          fb_score = field oa ''score''\<rparr>\<rparr>
                           else q)
             in q'\<lparr>isAnalyzing := False\<rparr>))"

subsection \<open>The component as a transition system\<close>

text \<open>
  One event: the handler's state updates and the requests it sends. A control that is
  not rendered, or disabled, in the current state gives no event.
\<close>

fun handle :: "page \<Rightarrow> event \<Rightarrow> page \<times> page_request list" where
  "handle p ClickSquat = (p\<lparr>recordingMode := ''squat''\<rparr>, [])"
| "handle p ClickSitting = (p\<lparr>recordingMode := ''sitting''\<rparr>, [])"
| "handle p ClickWebcamTab = (p\<lparr>activeTab := ''webcam''\<rparr>, [])"
| "handle p ClickUploadTab = (p\<lparr>activeTab := ''upload''\<rparr>, [])"
| "handle p (SelectVideo localURL) =
     (if activeTab p = ''upload'' \<and> \<not> isAnalyzing p then upload_started p localURL
      else (p, []))"
| "handle p (VideoResponse out) = (on_video_response p out, [])"
| "handle p (ClickStartStop granted) =
     (if activeTab p = ''upload'' then (p, [])
      else if \<not> isRecording p
      then (case granted of
              None \<Rightarrow> (p, [])
            | Some stream \<Rightarrow>
                (p\<lparr>liveVideoStream := Some stream, isRecording := True,
                   isLiveAnalysisActive := True\<rparr>, []))
      else (p\<lparr>isLiveAnalysisActive := False, liveVideoStream := None, isRecording := False,
              liveFeedback := None, feedback := JArr []\<rparr>, []))"
| "handle p ClickToggleLive =
     (if activeTab p = ''upload'' \<or> \<not> isRecording p then (p, [])
      else if \<not> isLiveAnalysisActive p
      then (p\<lparr>isLiveAnalysisActive := True, liveFeedback := None, feedback := JArr []\<rparr>, [])
      else (p\<lparr>isLiveAnalysisActive := False\<rparr>, []))"
| "handle p ClickRemoveVideo =
     (if (activeTab p = ''webcam'' \<and> liveVideoStream p \<noteq> None) \<or> uploadedVideoURL p = None
      then (p, [])
      else (p\<lparr>uploadedVideoURL := None, analysisResults := None\<rparr>, []))"
| "handle p (Tick ready blob) = (p, on_tick p ready blob)"
| "handle p (FrameResponse out) = (on_frame_response p out, [])"

text \<open>
  A step: the handler's updates, the render and the effects that follow it are taken
  together.
\<close>

definition page_step :: "page \<Rightarrow> event \<Rightarrow> page \<times> page_request list" where
  "page_step p e = (live_effect p (fst (handle p e)), snd (handle p e))"

fun page_run :: "page \<Rightarrow> event list \<Rightarrow> page \<times> page_request list" where
  "page_run p [] = (p, [])"
| "page_run p (e # es) =
     (fst (page_run (fst (page_step p e)) es),
      snd (page_step p e) @ snd (page_run (fst (page_step p e)) es))"

text \<open>
  Frame requests without a response yet, along a run: each frame request sent adds one,
  each \<open>FrameResponse\<close> delivered takes one away.
\<close>

fun returned :: "event \<Rightarrow> nat" where
  "returned (FrameResponse out) = 1"
| "returned e = 0"

definition frames_sent :: "page_request list \<Rightarrow> nat" where
  "frames_sent rs = length (filter (\<lambda>r. route r = ''/api/video/frame'') rs)"

fun in_flight :: "page \<Rightarrow> nat \<Rightarrow> event list \<Rightarrow> nat" where
  "in_flight p n [] = n"
| "in_flight p n (e # es) =
     in_flight (fst (page_step p e)) (n - returned e + frames_sent (snd (page_step p e))) es"

text \<open>
  The two modes the page offers, and the state property behind them: the recording mode
  is one of the two, and a running timer has the delay 600 and closed over the current
  recording mode.
\<close>

definition offered :: "string \<Rightarrow> bool" where
  "offered m = (m = ''squat'' \<or> m = ''sitting'')"

definition mode_invariant :: "page \<Rightarrow> bool" where
  "mode_invariant p =
     (offered (recordingMode p)
      \<and> (case frameAnalysisInterval p of
            None \<Rightarrow> True
          | Some t \<Rightarrow> captured_mode t = recordingMode p \<and> delay_ms t = 600))"

text \<open>A request of the page as it arrives at the relay, with the bytes of its file.\<close>

definition arriving :: "page_request \<Rightarrow> bytes \<Rightarrow> raw_request" where
  "arriving r content =
     \<lparr>file_part = Some (upload_field r, content), raw_mode = Some (mode_field r),
      raw_imagePath = None\<rparr>"

section \<open>Concrete inputs\<close>

text \<open>
  A configuration with the knee rule of the spec's scenario (accepted range 90 to 160)
  and the ceiling 5, that is the penalty 20.
\<close>

definition sample_config :: config where
  "sample_config =
     \<lparr>rule_table = (\<lambda>m. case m of
          Squat \<Rightarrow> [\<lparr>on_joint = ''knee'', accepts = Range 90 160,
                      issue_text = ''knee angle too small''\<rparr>,
                    \<lparr>on_joint = ''back'', accepts = AtLeast 150,
                      issue_text = ''back not straight''\<rparr>]
        | Sitting \<Rightarrow> [\<lparr>on_joint = ''neck'', accepts = AtLeast 140,
                        issue_text = ''neck bent forward''\<rparr>]),
      issue_ceiling = 5, stride = 1, top_n = 5\<rparr>"

text \<open>
  A simple source for the external capabilities: a byte \<open>b\<close> is the picture of a subject
  whose knee angle is \<open>b\<close> degrees, the byte 0 a picture without a subject; a video is
  one picture per byte at 30 fps; an empty buffer is unreadable.
\<close>

definition picture :: "nat \<Rightarrow> keypoint list option" where
  "picture b =
     (if b = 0 then None
      else Some [\<lparr>landmark = ''knee'', kx = of_nat b, ky = 0, kz = None, visibility = 1\<rparr>,
                 \<lparr>landmark = ''back'', kx = 170, ky = 0, kz = None, visibility = 1\<rparr>,
                 \<lparr>landmark = ''neck'', kx = 150, ky = 0, kz = None, visibility = 1\<rparr>])"

definition sample_source :: "(keypoint list option) source" where
  "sample_source =
     \<lparr>detect = (\<lambda>img. img),
      angles = (\<lambda>m kps. map (\<lambda>k. \<lparr>joint = landmark k, degrees = kx k,
                                       valid = (1 / 2 \<le> visibility k)\<rparr>) kps),
      read_image = (\<lambda>raw. case raw of [] \<Rightarrow> None | b # bs \<Rightarrow> Some (picture b)),
      read_video = (\<lambda>raw. if raw = [] then None else Some (map picture raw, 30))\<rparr>"

definition empty_disk :: disk where
  "empty_disk p = None"

definition sample_engine :: transport where
  "sample_engine = engine_transport sample_config sample_source"

text \<open>A network on which the engine's server refuses every connection.\<close>

definition down_network :: network where
  "down_network url form d = Unreachable ''connect ECONNREFUSED 127.0.0.1:5001''"

definition engine_down :: transport where
  "engine_down = axios_post down_network"

text \<open>A server that answers every form with the value of its \<open>mode\<close> field.\<close>

fun mode_sent :: "form_part list \<Rightarrow> json" where
  "mode_sent [] = JNull"
| "mode_sent (FField k v # ps) = (if k = ''mode'' then JStr v else mode_sent ps)"
| "mode_sent (part # ps) = mode_sent ps"

definition echo_server :: network where
  "echo_server url form d = Answered 200 (mode_sent form)"

definition mode_echo :: transport where
  "mode_echo = axios_post echo_server"

text \<open>A server that refuses every form whose mode is not one of the two, with status 400.\<close>

definition strict_server :: network where
  "strict_server url form d =
     (if mode_sent form = JStr ''squat'' \<or> mode_sent form = JStr ''sitting''
      then Answered 200 (mode_sent form)
      else Answered 400 (JObj [(''error'', JStr ''UnsupportedMode'')]))"

section \<open>Facts about the relay\<close>

lemma single_disk_accepts:
  "file_part r = Some (name, c) \<Longrightarrow>
   single_disk dir name fresh r d =
     Inr (\<lparr>req_file = Some \<lparr>path = dir @ fresh\<rparr>, body_mode = raw_mode r,
           body_imagePath = raw_imagePath r\<rparr>, d(dir @ fresh \<mapsto> c))"
  by (simp add: single_disk_def)

lemma single_memory_accepts:
  "file_part r = Some (name, c) \<Longrightarrow>
   single_memory name r =
     Inr \<lparr>req_file = Some \<lparr>buffer = c\<rparr>, body_mode = raw_mode r,
          body_imagePath = raw_imagePath r\<rparr>"
  by (simp add: single_memory_def)

lemma route_analyze_accepted:
  assumes "file_part r = Some (''video'', c)"
  shows "route_analyze env post fresh d r =
     (case post (pythonURL env @ ''/analyze'')
                [FStream ''video'' (''uploads/'' @ fresh),
                 FField ''mode'' (or_string (raw_mode r) ''squat'')]
                (d(''uploads/'' @ fresh \<mapsto> c)) of
        Rejected msg \<Rightarrow> (d(''uploads/'' @ fresh \<mapsto> c), failure msg)
      | Resolved dat \<Rightarrow>
          (d(''uploads/'' @ fresh := None),
           reply 200 (JObj [(''success'', JBool True), (''flaskResponse'', dat)])))"
  by (simp add: route_analyze_def single_disk_accepts [OF assms] analyzeUploadedVideo_def
      unlinkSync_def split: axios_result.split)

lemma route_frame_accepted:
  assumes "file_part r = Some (''image'', c)"
  shows "route_frame post d r =
     (case post ''http://127.0.0.1:5001/frame''
                [FBuffer ''image'' c ''frame.jpg'' ''image/jpeg'',
                 FField ''mode'' (or_string (raw_mode r) ''squat'')] d of
        Rejected msg \<Rightarrow> failure msg
      | Resolved dat \<Rightarrow> reply 200 (JObj [(''success'', JBool True), (''feedback'', dat)]))"
  by (simp add: route_frame_def single_memory_accepts [OF assms] analyzeSingleFrame_def
      split: axios_result.split)

lemma route_analyze_squat_uploaded:
  assumes "file_part r = Some (''frame'', c)"
  shows "route_analyze_squat post fresh d r =
     (case post ''http://localhost:5001/analyze/squat'' [FStream ''frame'' (''temp/'' @ fresh)]
                (d(''temp/'' @ fresh \<mapsto> c)) of
        Rejected msg \<Rightarrow>
          (d(''temp/'' @ fresh := None), Some (reply 500 (JObj [(''error'', JStr msg)])))
      | Resolved dat \<Rightarrow> (d(''temp/'' @ fresh := None), Some (reply 200 dat)))"
  by (simp add: route_analyze_squat_def single_disk_accepts [OF assms] analyze_exercise_def
      unlinkSync_def split: axios_result.split)

lemma status_failure: "status (failure msg) = 500"
  by (simp add: failure_def reply_def)

lemma route_frame_refused:
  "file_part r = Some (fld, c) \<Longrightarrow> fld \<noteq> ''image'' \<Longrightarrow>
   route_frame post d r = reply 400 (JObj [(''error'', JStr ''Unexpected field'')])"
  by (simp add: route_frame_def single_memory_def multer_error_middleware_def)

lemma route_frame_no_file:
  "file_part r = None \<Longrightarrow> route_frame post d r = failure (undefined_property ''buffer'')"
  by (simp add: route_frame_def single_memory_def analyzeSingleFrame_def)

lemma route_analyze_refused:
  "file_part r = Some (fld, c) \<Longrightarrow> fld \<noteq> ''video'' \<Longrightarrow>
   route_analyze env post fresh d r =
     (d, reply 400 (JObj [(''error'', JStr ''Unexpected field'')]))"
  by (simp add: route_analyze_def single_disk_def multer_error_middleware_def)

lemma route_analyze_no_file:
  "file_part r = None \<Longrightarrow>
   route_analyze env post fresh d r = (d, failure (undefined_property ''path''))"
  by (simp add: route_analyze_def single_disk_def analyzeUploadedVideo_def)

lemma or_string_default: "or_string None b = b" "or_string (Some []) b = b"
  by (simp_all add: or_string_def)

lemma or_string_given: "m \<noteq> [] \<Longrightarrow> or_string (Some m) b = m"
  by (simp add: or_string_def)

lemma route_frame_mode:
  "or_string (raw_mode r) ''squat'' = or_string (raw_mode r') ''squat'' \<Longrightarrow>
   file_part r = file_part r' \<Longrightarrow> route_frame post d r = route_frame post d r'"
  by (simp add: route_frame_def single_memory_def analyzeSingleFrame_def
      split: option.split prod.split)

lemma route_analyze_mode:
  "or_string (raw_mode r) ''squat'' = or_string (raw_mode r') ''squat'' \<Longrightarrow>
   file_part r = file_part r' \<Longrightarrow>
   route_analyze env post fresh d r = route_analyze env post fresh d r'"
  by (simp add: route_analyze_def single_disk_def analyzeUploadedVideo_def
      split: option.split prod.split)

lemma page_frame_requests:
  "q \<in> set (snd (page_step p e)) \<Longrightarrow> route q = ''/api/video/frame'' \<Longrightarrow>
   upload_field q = ''frame''"
  by (cases e) (auto simp: page_step_def on_tick_def upload_started_def
      split: option.splits if_splits)

lemma route_frame_rejected:
  "file_part r = Some (''image'', c) \<Longrightarrow>
   post ''http://127.0.0.1:5001/frame''
     [FBuffer ''image'' c ''frame.jpg'' ''image/jpeg'',
      FField ''mode'' (or_string (raw_mode r) ''squat'')] d = Rejected msg \<Longrightarrow>
   route_frame post d r =
     \<lparr>status = 500, body = JObj [(''success'', JBool False), (''error'', JStr msg)]\<rparr>"
  by (simp add: route_frame_accepted failure_def reply_def)

lemma route_analyze_rejected:
  "file_part r = Some (''video'', c) \<Longrightarrow>
   post (pythonURL env @ ''/analyze'')
     [FStream ''video'' (''uploads/'' @ fresh),
      FField ''mode'' (or_string (raw_mode r) ''squat'')]
     (d(''uploads/'' @ fresh \<mapsto> c)) = Rejected msg \<Longrightarrow>
   snd (route_analyze env post fresh d r) =
     \<lparr>status = 500, body = JObj [(''success'', JBool False), (''error'', JStr msg)]\<rparr>"
  by (simp add: route_analyze_accepted failure_def reply_def)


section \<open>Facts about axios and the engine\<close>


lemma axios_post_answered:
  "CHR '':'' \<in> set url \<Longrightarrow> net url form d = Answered code dat \<Longrightarrow>
   axios_post net url form d =
     (if 200 \<le> code \<and> code < 300 then Resolved dat
      else Rejected (''Request failed with status code '' @ decimal code))"
  by (simp add: axios_post_def)

lemma decimal_400: "decimal 400 = ''400''"
  by (simp add: decimal.simps)

lemma engine_transport_frame:
  "CHR '':'' \<in> set url \<Longrightarrow>
   engine_transport cfg src url [FBuffer ''image'' raw fname ctype, FField ''mode'' ms] d =
     (case engine_frame cfg src raw ms of
        Inl e \<Rightarrow> Rejected ''Request failed with status code 400''
      | Inr v \<Rightarrow> Resolved (encode_verdict v))"
  by (simp add: engine_transport_def axios_post_def refused_def decimal_400 split: sum.split)

lemma engine_transport_video:
  "CHR '':'' \<in> set url \<Longrightarrow> d p = Some raw \<Longrightarrow>
   engine_transport cfg src url [FStream ''video'' p, FField ''mode'' ms] d =
     (case engine_video cfg src raw ms of
        Inl e \<Rightarrow> Rejected ''Request failed with status code 400''
      | Inr r \<Rightarrow> Resolved (encode_report r))"
  by (simp add: engine_transport_def axios_post_def refused_def decimal_400 split: sum.split)

lemma local_url: "CHR '':'' \<in> set (pythonURL (Some ''http://localhost:5001'') @ ''/analyze'')"
  by (simp add: pythonURL_def)

lemma frame_url: "CHR '':'' \<in> set ''http://127.0.0.1:5001/frame''"
  by simp

lemma picture_70: "picture 70 =
  Some [\<lparr>landmark = ''knee'', kx = 70, ky = 0, kz = None, visibility = 1\<rparr>,
        \<lparr>landmark = ''back'', kx = 170, ky = 0, kz = None, visibility = 1\<rparr>,
        \<lparr>landmark = ''neck'', kx = 150, ky = 0, kz = None, visibility = 1\<rparr>]"
  by (simp add: picture_def)

lemma sample_frame_70:
  "analyzeFrame sample_config sample_source (picture 70) Squat =
     \<lparr>v_status = NeedsImprovement, v_details = [''knee angle too small''], v_score = Some 80\<rparr>"
  by (simp add: picture_70 analyzeFrame_def sample_source_def evaluate_def Let_def issues_of_def
      violated_def measured_def sample_config_def required_joints_def score_of_def penalty_def
      band_def)

lemma sample_engine_frame_70:
  "engine_frame sample_config sample_source [70] ''squat'' =
     Inr \<lparr>v_status = NeedsImprovement, v_details = [''knee angle too small''], v_score = Some 80\<rparr>"
proof -
  have "read_image sample_source [70] = Some (picture 70)" by (simp add: sample_source_def)
  then show ?thesis by (simp add: engine_frame_def parse_mode_def sample_frame_70)
qed

lemma sample_engine_video:
  "engine_video sample_config sample_source [100, 70] ''squat'' =
     Inr (analyzeVideo sample_config sample_source (map picture [100, 70]) 30 Squat)"
proof -
  have "read_video sample_source [100, 70] = Some (map picture [100, 70], 30)"
    by (simp add: sample_source_def)
  then show ?thesis by (simp add: engine_video_def parse_mode_def)
qed

section \<open>The temporary file of an upload\<close>

text \<open>
  C10. In the full-video handler the uploaded temporary file is deleted on the success
  path only: when the forwarded engine request fails, the \<open>catch\<close> branch answers 500
  and the file stays on the disk. The \<open>/analyze-squat\<close> route deletes its temporary file
  whether the engine request succeeds or fails.
\<close>

theorem temp_file_deleted_on_success_only:
  assumes video: "file_part rv = Some (''video'', cv)"
    and frame: "file_part rs = Some (''frame'', cs)"
  shows "(case post (pythonURL env @ ''/analyze'')
                   [FStream ''video'' (''uploads/'' @ fresh),
                    FField ''mode'' (or_string (raw_mode rv) ''squat'')]
                   (d(''uploads/'' @ fresh \<mapsto> cv)) of
            Rejected msg \<Rightarrow>
              status (snd (route_analyze env post fresh d rv)) = 500
              \<and> fst (route_analyze env post fresh d rv) (''uploads/'' @ fresh) = Some cv
          | Resolved dat \<Rightarrow>
              status (snd (route_analyze env post fresh d rv)) = 200
              \<and> fst (route_analyze env post fresh d rv) (''uploads/'' @ fresh) = None)
         \<and> fst (route_analyze_squat post' fresh' d' rs) (''temp/'' @ fresh') = None"
proof -
  have "fst (route_analyze_squat post' fresh' d' rs) (''temp/'' @ fresh') = None"
    by (simp add: route_analyze_squat_uploaded [OF frame] split: axios_result.split)
  moreover have "case post (pythonURL env @ ''/analyze'')
                   [FStream ''video'' (''uploads/'' @ fresh),
                    FField ''mode'' (or_string (raw_mode rv) ''squat'')]
                   (d(''uploads/'' @ fresh \<mapsto> cv)) of
            Rejected msg \<Rightarrow>
              status (snd (route_analyze env post fresh d rv)) = 500
              \<and> fst (route_analyze env post fresh d rv) (''uploads/'' @ fresh) = Some cv
          | Resolved dat \<Rightarrow>
              status (snd (route_analyze env post fresh d rv)) = 200
              \<and> fst (route_analyze env post fresh d rv) (''uploads/'' @ fresh) = None"
    by (simp add: route_analyze_accepted [OF video] failure_def reply_def
        split: axios_result.split)
  ultimately show ?thesis by simp
qed

theorem temp_file_deleted_on_success_only_witness:
  "status (snd (route_analyze None engine_down ''a1'' empty_disk
             \<lparr>file_part = Some (''video'', [1, 2]), raw_mode = None, raw_imagePath = None\<rparr>)) = 500
   \<and> fst (route_analyze None engine_down ''a1'' empty_disk
             \<lparr>file_part = Some (''video'', [1, 2]), raw_mode = None, raw_imagePath = None\<rparr>)
         ''uploads/a1'' = Some [1, 2]
   \<and> fst (route_analyze_squat engine_down ''b2'' empty_disk
             \<lparr>file_part = Some (''frame'', [3]), raw_mode = None, raw_imagePath = None\<rparr>)
         ''temp/b2'' = None"
  using temp_file_deleted_on_success_only
    [where rv = "\<lparr>file_part = Some (''video'', [1, 2]), raw_mode = None, raw_imagePath = None\<rparr>"
       and cv = "[1, 2]"
       and rs = "\<lparr>file_part = Some (''frame'', [3]), raw_mode = None, raw_imagePath = None\<rparr>"
       and cs = "[3]" and post = engine_down and env = None and fresh = "''a1''"
       and d = empty_disk and post' = engine_down and fresh' = "''b2''" and d' = empty_disk]
  by (simp add: engine_down_def axios_post_def down_network_def pythonURL_def)

section \<open>What the relay returns\<close>

text \<open>
  C1, as stated: for a full-video and for a single-frame request the relay returns the
  engine's JSON result unmodified, so that a video response has exactly the keys
  \<open>overall_analysis\<close>, \<open>video_stats\<close>, \<open>most_common_issues\<close> and a frame response
  exactly \<open>status\<close>, \<open>score\<close>, \<open>details\<close>. It does not hold: with an engine that
  answers in exactly these shapes, the video body the relay sends has the keys
  \<open>success\<close> and \<open>flaskResponse\<close>, and the frame body is the verdict wrapped under
  \<open>feedback\<close>.
\<close>

theorem relay_wraps_engine_result_counterexample:
  "keys (body (snd (route_analyze (Some ''http://localhost:5001'') sample_engine ''a1'' empty_disk
             \<lparr>file_part = Some (''video'', [100, 70]), raw_mode = Some ''squat'',
              raw_imagePath = None\<rparr>))) = [''success'', ''flaskResponse'']
   \<and> route_frame sample_engine empty_disk
             \<lparr>file_part = Some (''image'', [70]), raw_mode = Some ''squat'',
              raw_imagePath = None\<rparr>
       = \<lparr>status = 200,
          body = JObj [(''success'', JBool True),
                       (''feedback'',
                        JObj [(''status'', JStr ''Needs Improvement''),
                              (''score'', JNum 80),
                              (''details'', JArr [JStr ''knee angle too small''])])]\<rparr>"
proof -
  have v: "sample_engine (pythonURL (Some ''http://localhost:5001'') @ ''/analyze'')
            [FStream ''video'' (''uploads/'' @ ''a1''), FField ''mode'' ''squat'']
            (empty_disk(''uploads/'' @ ''a1'' \<mapsto> [100, 70])) =
           Resolved (encode_report
             (analyzeVideo sample_config sample_source (map picture [100, 70]) 30 Squat))"
    unfolding sample_engine_def
    by (subst engine_transport_video [OF local_url, where raw = "[100, 70]"])
       (simp_all add: sample_engine_video)
  have f: "sample_engine ''http://127.0.0.1:5001/frame''
            [FBuffer ''image'' [70] ''frame.jpg'' ''image/jpeg'', FField ''mode'' ''squat'']
            empty_disk =
           Resolved (encode_verdict
             \<lparr>v_status = NeedsImprovement, v_details = [''knee angle too small''],
              v_score = Some 80\<rparr>)"
    unfolding sample_engine_def
    by (subst engine_transport_frame [OF frame_url]) (simp add: sample_engine_frame_70)
  have "keys (body (snd (route_analyze (Some ''http://localhost:5001'') sample_engine ''a1''
             empty_disk
             \<lparr>file_part = Some (''video'', [100, 70]), raw_mode = Some ''squat'',
              raw_imagePath = None\<rparr>))) = [''success'', ''flaskResponse'']"
    using v by (simp add: route_analyze_accepted or_string_def reply_def pythonURL_def)
  moreover have "route_frame sample_engine empty_disk
             \<lparr>file_part = Some (''image'', [70]), raw_mode = Some ''squat'',
              raw_imagePath = None\<rparr>
       = \<lparr>status = 200,
          body = JObj [(''success'', JBool True),
                       (''feedback'',
                        JObj [(''status'', JStr ''Needs Improvement''),
                              (''score'', JNum 80),
                              (''details'', JArr [JStr ''knee angle too small''])])]\<rparr>"
    using f by (simp add: route_frame_accepted or_string_def reply_def encode_verdict_def)
  ultimately show ?thesis by simp
qed


text \<open>
  C1, amended: the \<open>/analyze\<close> route (full video) and the \<open>/frame\<close> route (single frame)
  answer 200 exactly when the handler's own request to the engine resolves, and the body
  is then the envelope \<open>{success: true, flaskResponse: data}\<close> (video) or
  \<open>{success: true, feedback: data}\<close> (frame), where \<open>data\<close> is the \<open>response.data\<close> of
  that request, unmodified.
\<close>

theorem relay_wraps_engine_result:
  "(status (snd (route_analyze env post fresh d rv)) = 200 \<longrightarrow>
      (\<exists>c dat. file_part rv = Some (''video'', c)
         \<and> post (pythonURL env @ ''/analyze'')
              [FStream ''video'' (''uploads/'' @ fresh),
               FField ''mode'' (or_string (raw_mode rv) ''squat'')]
              (d(''uploads/'' @ fresh \<mapsto> c)) = Resolved dat
         \<and> snd (route_analyze env post fresh d rv) =
             \<lparr>status = 200,
              body = JObj [(''success'', JBool True), (''flaskResponse'', dat)]\<rparr>))
   \<and> (\<forall>c dat. file_part rv = Some (''video'', c)
         \<and> post (pythonURL env @ ''/analyze'')
              [FStream ''video'' (''uploads/'' @ fresh),
               FField ''mode'' (or_string (raw_mode rv) ''squat'')]
              (d(''uploads/'' @ fresh \<mapsto> c)) = Resolved dat \<longrightarrow>
         snd (route_analyze env post fresh d rv) =
           \<lparr>status = 200,
            body = JObj [(''success'', JBool True), (''flaskResponse'', dat)]\<rparr>)
   \<and> (status (route_frame post d rf) = 200 \<longrightarrow>
      (\<exists>c dat. file_part rf = Some (''image'', c)
         \<and> post ''http://127.0.0.1:5001/frame''
              [FBuffer ''image'' c ''frame.jpg'' ''image/jpeg'',
               FField ''mode'' (or_string (raw_mode rf) ''squat'')] d = Resolved dat
         \<and> route_frame post d rf =
             \<lparr>status = 200,
              body = JObj [(''success'', JBool True), (''feedback'', dat)]\<rparr>))
   \<and> (\<forall>c dat. file_part rf = Some (''image'', c)
         \<and> post ''http://127.0.0.1:5001/frame''
              [FBuffer ''image'' c ''frame.jpg'' ''image/jpeg'',
               FField ''mode'' (or_string (raw_mode rf) ''squat'')] d = Resolved dat \<longrightarrow>
         route_frame post d rf =
           \<lparr>status = 200,
            body = JObj [(''success'', JBool True), (''feedback'', dat)]\<rparr>)"
proof -
  let ?vcall = "\<lambda>c. post (pythonURL env @ ''/analyze'')
                [FStream ''video'' (''uploads/'' @ fresh),
                 FField ''mode'' (or_string (raw_mode rv) ''squat'')]
                (d(''uploads/'' @ fresh \<mapsto> c))"
  let ?fcall = "\<lambda>c. post ''http://127.0.0.1:5001/frame''
                [FBuffer ''image'' c ''frame.jpg'' ''image/jpeg'',
                 FField ''mode'' (or_string (raw_mode rf) ''squat'')] d"
  have v_resolved: "snd (route_analyze env post fresh d rv) =
           \<lparr>status = 200,
            body = JObj [(''success'', JBool True), (''flaskResponse'', dat)]\<rparr>"
    if "file_part rv = Some (''video'', c)" and "?vcall c = Resolved dat" for c dat
    using that by (simp add: route_analyze_accepted reply_def)
  have f_resolved: "route_frame post d rf =
           \<lparr>status = 200,
            body = JObj [(''success'', JBool True), (''feedback'', dat)]\<rparr>"
    if "file_part rf = Some (''image'', c)" and "?fcall c = Resolved dat" for c dat
    using that by (simp add: route_frame_accepted reply_def)
  have v_ok: "\<exists>c dat. file_part rv = Some (''video'', c) \<and> ?vcall c = Resolved dat"
    if ok: "status (snd (route_analyze env post fresh d rv)) = 200"
  proof (cases "file_part rv")
    case None
    with ok show ?thesis by (simp add: route_analyze_no_file status_failure)
  next
    case (Some fc)
    obtain fld c where fc: "fc = (fld, c)" by (cases fc)
    show ?thesis
    proof (cases "fld = ''video''")
      case False
      with ok Some fc show ?thesis by (simp add: route_analyze_refused reply_def)
    next
      case True
      with Some fc have acc: "file_part rv = Some (''video'', c)" by simp
      show ?thesis
      proof (cases "?vcall c")
        case (Rejected msg)
        with ok show ?thesis
          by (simp add: route_analyze_accepted [OF acc] status_failure)
      next
        case (Resolved dat)
        with acc show ?thesis by (intro exI conjI)
      qed
    qed
  qed
  have f_ok: "\<exists>c dat. file_part rf = Some (''image'', c) \<and> ?fcall c = Resolved dat"
    if ok: "status (route_frame post d rf) = 200"
  proof (cases "file_part rf")
    case None
    with ok show ?thesis by (simp add: route_frame_no_file status_failure)
  next
    case (Some fc)
    obtain fld c where fc: "fc = (fld, c)" by (cases fc)
    show ?thesis
    proof (cases "fld = ''image''")
      case False
      with ok Some fc show ?thesis by (simp add: route_frame_refused reply_def)
    next
      case True
      with Some fc have acc: "file_part rf = Some (''image'', c)" by simp
      show ?thesis
      proof (cases "?fcall c")
        case (Rejected msg)
        with ok show ?thesis
          by (simp add: route_frame_accepted [OF acc] status_failure)
      next
        case (Resolved dat)
        with acc show ?thesis by (intro exI conjI)
      qed
    qed
  qed
  show ?thesis
  proof (intro conjI allI impI)
    assume "status (snd (route_analyze env post fresh d rv)) = 200"
    then obtain c dat where "file_part rv = Some (''video'', c)" "?vcall c = Resolved dat"
      using v_ok by blast
    then show "\<exists>c dat. file_part rv = Some (''video'', c) \<and> ?vcall c = Resolved dat
         \<and> snd (route_analyze env post fresh d rv) =
             \<lparr>status = 200,
              body = JObj [(''success'', JBool True), (''flaskResponse'', dat)]\<rparr>"
      using v_resolved by (intro exI conjI)
  next
    fix c dat
    assume "file_part rv = Some (''video'', c) \<and> ?vcall c = Resolved dat"
    then show "snd (route_analyze env post fresh d rv) =
           \<lparr>status = 200,
            body = JObj [(''success'', JBool True), (''flaskResponse'', dat)]\<rparr>"
      using v_resolved by (elim conjE)
  next
    assume "status (route_frame post d rf) = 200"
    then obtain c dat where "file_part rf = Some (''image'', c)" "?fcall c = Resolved dat"
      using f_ok by blast
    then show "\<exists>c dat. file_part rf = Some (''image'', c) \<and> ?fcall c = Resolved dat
         \<and> route_frame post d rf =
             \<lparr>status = 200,
              body = JObj [(''success'', JBool True), (''feedback'', dat)]\<rparr>"
      using f_resolved by (intro exI conjI)
  next
    fix c dat
    assume "file_part rf = Some (''image'', c) \<and> ?fcall c = Resolved dat"
    then show "route_frame post d rf =
           \<lparr>status = 200,
            body = JObj [(''success'', JBool True), (''feedback'', dat)]\<rparr>"
      using f_resolved by (elim conjE)
  qed
qed


theorem relay_wraps_engine_result_witness:
  "mode_echo (pythonURL (Some ''http://localhost:5001'') @ ''/analyze'')
     [FStream ''video'' (''uploads/'' @ ''a1''),
      FField ''mode'' (or_string (Some ''sitting'') ''squat'')]
     (empty_disk(''uploads/'' @ ''a1'' \<mapsto> [100, 70])) = Resolved (JStr ''sitting'')
   \<and> snd (route_analyze (Some ''http://localhost:5001'') mode_echo ''a1'' empty_disk
             \<lparr>file_part = Some (''video'', [100, 70]), raw_mode = Some ''sitting'',
              raw_imagePath = None\<rparr>)
       = \<lparr>status = 200,
          body = JObj [(''success'', JBool True), (''flaskResponse'', JStr ''sitting'')]\<rparr>
   \<and> mode_echo ''http://127.0.0.1:5001/frame''
        [FBuffer ''image'' [70] ''frame.jpg'' ''image/jpeg'',
         FField ''mode'' (or_string (Some ''sitting'') ''squat'')] empty_disk
       = Resolved (JStr ''sitting'')
   \<and> route_frame mode_echo empty_disk
             \<lparr>file_part = Some (''image'', [70]), raw_mode = Some ''sitting'',
              raw_imagePath = None\<rparr>
       = \<lparr>status = 200,
          body = JObj [(''success'', JBool True), (''feedback'', JStr ''sitting'')]\<rparr>"
proof -
  let ?rv = "\<lparr>file_part = Some (''video'', [100, 70]), raw_mode = Some ''sitting'',
              raw_imagePath = None\<rparr>"
  let ?rf = "\<lparr>file_part = Some (''image'', [70]), raw_mode = Some ''sitting'',
              raw_imagePath = None\<rparr>"
  have v: "file_part ?rv = Some (''video'', [100, 70])
     \<and> mode_echo (pythonURL (Some ''http://localhost:5001'') @ ''/analyze'')
     [FStream ''video'' (''uploads/'' @ ''a1''),
      FField ''mode'' (or_string (raw_mode ?rv) ''squat'')]
     (empty_disk(''uploads/'' @ ''a1'' \<mapsto> [100, 70])) = Resolved (JStr ''sitting'')"
    by (simp add: mode_echo_def axios_post_def echo_server_def pythonURL_def or_string_def)
  have f: "file_part ?rf = Some (''image'', [70])
     \<and> mode_echo ''http://127.0.0.1:5001/frame''
        [FBuffer ''image'' [70] ''frame.jpg'' ''image/jpeg'',
         FField ''mode'' (or_string (raw_mode ?rf) ''squat'')] empty_disk
       = Resolved (JStr ''sitting'')"
    by (simp add: mode_echo_def axios_post_def echo_server_def or_string_def)
  note inst = relay_wraps_engine_result
    [where post = mode_echo and env = "Some ''http://localhost:5001''" and fresh = "''a1''"
       and d = empty_disk and rv = ?rv and rf = ?rf]
  have rv: "snd (route_analyze (Some ''http://localhost:5001'') mode_echo ''a1''
       empty_disk ?rv)
       = \<lparr>status = 200,
          body = JObj [(''success'', JBool True), (''flaskResponse'', JStr ''sitting'')]\<rparr>"
    using inst [THEN conjunct2, THEN conjunct1, rule_format, OF v] .
  have rf: "route_frame mode_echo empty_disk ?rf
       = \<lparr>status = 200,
          body = JObj [(''success'', JBool True), (''feedback'', JStr ''sitting'')]\<rparr>"
    using inst [THEN conjunct2, THEN conjunct2, THEN conjunct2, rule_format, OF f] .
  from v f have "mode_echo (pythonURL (Some ''http://localhost:5001'') @ ''/analyze'')
     [FStream ''video'' (''uploads/'' @ ''a1''),
      FField ''mode'' (or_string (Some ''sitting'') ''squat'')]
     (empty_disk(''uploads/'' @ ''a1'' \<mapsto> [100, 70])) = Resolved (JStr ''sitting'')"
    and "mode_echo ''http://127.0.0.1:5001/frame''
        [FBuffer ''image'' [70] ''frame.jpg'' ''image/jpeg'',
         FField ''mode'' (or_string (Some ''sitting'') ''squat'')] empty_disk
       = Resolved (JStr ''sitting'')"
    by simp_all
  with rv rf show ?thesis by (intro conjI)
qed

section \<open>The mode selector\<close>

text \<open>
  C2, as stated: a request whose mode selector is missing or unsupported fails with an
  UnsupportedMode error, and the mode is never defaulted before it is passed to the
  engine. It does not hold: for a frame or a video request without a mode, the engine
  receives the mode \<open>squat\<close> and the relay answers 200.
\<close>

theorem missing_mode_is_squat_counterexample:
  "route_frame mode_echo empty_disk
     \<lparr>file_part = Some (''image'', [70]), raw_mode = None, raw_imagePath = None\<rparr>
     = \<lparr>status = 200, body = JObj [(''success'', JBool True), (''feedback'', JStr ''squat'')]\<rparr>
   \<and> snd (route_analyze (Some ''http://localhost:5001'') mode_echo ''a1'' empty_disk
     \<lparr>file_part = Some (''video'', [70, 100]), raw_mode = None, raw_imagePath = None\<rparr>)
     = \<lparr>status = 200,
        body = JObj [(''success'', JBool True), (''flaskResponse'', JStr ''squat'')]\<rparr>"
  by (simp add: route_analyze_accepted route_frame_accepted mode_echo_def axios_post_def
      echo_server_def pythonURL_def reply_def or_string_def)

text \<open>
  C2, amended: a request whose mode selector is missing or empty is handled by the relay
  exactly as a request with the mode \<open>squat\<close> (\<open>req.body.mode || 'squat'\<close>); a selector
  that is present and not empty, supported or not, is passed to the engine unchanged.
  The relay raises no UnsupportedMode error of its own: when the engine's server refuses
  the request with a status \<open>N\<close> outside 200 to 299, the caller receives the 500 error
  object \<open>{success: false, error: Request failed with status code N}\<close>.
\<close>

theorem missing_mode_is_squat:
  "route_frame post d (r\<lparr>raw_mode := None\<rparr>) = route_frame post d (r\<lparr>raw_mode := Some ''squat''\<rparr>)
   \<and> route_frame post d (r\<lparr>raw_mode := Some []\<rparr>)
       = route_frame post d (r\<lparr>raw_mode := Some ''squat''\<rparr>)
   \<and> route_analyze env post fresh d (r\<lparr>raw_mode := None\<rparr>)
       = route_analyze env post fresh d (r\<lparr>raw_mode := Some ''squat''\<rparr>)
   \<and> route_analyze env post fresh d (r\<lparr>raw_mode := Some []\<rparr>)
       = route_analyze env post fresh d (r\<lparr>raw_mode := Some ''squat''\<rparr>)
   \<and> (\<forall>c m. file_part r = Some (''image'', c) \<and> raw_mode r = Some m \<and> m \<noteq> [] \<longrightarrow>
        route_frame post d r =
          (case post ''http://127.0.0.1:5001/frame''
                  [FBuffer ''image'' c ''frame.jpg'' ''image/jpeg'', FField ''mode'' m] d of
             Rejected msg \<Rightarrow>
               \<lparr>status = 500,
                body = JObj [(''success'', JBool False), (''error'', JStr msg)]\<rparr>
           | Resolved dat \<Rightarrow>
               \<lparr>status = 200,
                body = JObj [(''success'', JBool True), (''feedback'', dat)]\<rparr>))
   \<and> (\<forall>c m. file_part r = Some (''video'', c) \<and> raw_mode r = Some m \<and> m \<noteq> [] \<longrightarrow>
        snd (route_analyze env post fresh d r) =
          (case post (pythonURL env @ ''/analyze'')
                  [FStream ''video'' (''uploads/'' @ fresh), FField ''mode'' m]
                  (d(''uploads/'' @ fresh \<mapsto> c)) of
             Rejected msg \<Rightarrow>
               \<lparr>status = 500,
                body = JObj [(''success'', JBool False), (''error'', JStr msg)]\<rparr>
           | Resolved dat \<Rightarrow>
               \<lparr>status = 200,
                body = JObj [(''success'', JBool True), (''flaskResponse'', dat)]\<rparr>))
   \<and> (\<forall>c m code dat. file_part r = Some (''image'', c) \<and> raw_mode r = Some m \<and> m \<noteq> []
          \<and> net ''http://127.0.0.1:5001/frame''
                [FBuffer ''image'' c ''frame.jpg'' ''image/jpeg'', FField ''mode'' m] d
              = Answered code dat
          \<and> (code < 200 \<or> 300 \<le> code) \<longrightarrow>
        route_frame (axios_post net) d r =
          \<lparr>status = 500,
           body = JObj [(''success'', JBool False),
                        (''error'', JStr (''Request failed with status code '' @ decimal code))]\<rparr>)
   \<and> (\<forall>c m u code dat. file_part r = Some (''video'', c) \<and> raw_mode r = Some m \<and> m \<noteq> []
          \<and> env = Some u \<and> CHR '':'' \<in> set u
          \<and> net (u @ ''/analyze'')
                [FStream ''video'' (''uploads/'' @ fresh), FField ''mode'' m]
                (d(''uploads/'' @ fresh \<mapsto> c))
              = Answered code dat
          \<and> (code < 200 \<or> 300 \<le> code) \<longrightarrow>
        snd (route_analyze env (axios_post net) fresh d r) =
          \<lparr>status = 500,
           body = JObj [(''success'', JBool False),
                        (''error'', JStr (''Request failed with status code '' @ decimal code))]\<rparr>)"
proof (intro conjI allI impI)
  show "route_frame post d (r\<lparr>raw_mode := None\<rparr>)
        = route_frame post d (r\<lparr>raw_mode := Some ''squat''\<rparr>)"
    by (rule route_frame_mode) (simp_all add: or_string_def)
  show "route_frame post d (r\<lparr>raw_mode := Some []\<rparr>)
        = route_frame post d (r\<lparr>raw_mode := Some ''squat''\<rparr>)"
    by (rule route_frame_mode) (simp_all add: or_string_def)
  show "route_analyze env post fresh d (r\<lparr>raw_mode := None\<rparr>)
        = route_analyze env post fresh d (r\<lparr>raw_mode := Some ''squat''\<rparr>)"
    by (rule route_analyze_mode) (simp_all add: or_string_def)
  show "route_analyze env post fresh d (r\<lparr>raw_mode := Some []\<rparr>)
        = route_analyze env post fresh d (r\<lparr>raw_mode := Some ''squat''\<rparr>)"
    by (rule route_analyze_mode) (simp_all add: or_string_def)
next
  fix c m
  assume h: "file_part r = Some (''image'', c) \<and> raw_mode r = Some m \<and> m \<noteq> []"
  then have acc: "file_part r = Some (''image'', c)" by simp
  from h show "route_frame post d r =
          (case post ''http://127.0.0.1:5001/frame''
                  [FBuffer ''image'' c ''frame.jpg'' ''image/jpeg'', FField ''mode'' m] d of
             Rejected msg \<Rightarrow>
               \<lparr>status = 500,
                body = JObj [(''success'', JBool False), (''error'', JStr msg)]\<rparr>
           | Resolved dat \<Rightarrow>
               \<lparr>status = 200,
                body = JObj [(''success'', JBool True), (''feedback'', dat)]\<rparr>)"
    by (simp add: route_frame_accepted [OF acc] or_string_def failure_def reply_def
        split: axios_result.split)
next
  fix c m
  assume h: "file_part r = Some (''video'', c) \<and> raw_mode r = Some m \<and> m \<noteq> []"
  then have acc: "file_part r = Some (''video'', c)" by simp
  from h show "snd (route_analyze env post fresh d r) =
          (case post (pythonURL env @ ''/analyze'')
                  [FStream ''video'' (''uploads/'' @ fresh), FField ''mode'' m]
                  (d(''uploads/'' @ fresh \<mapsto> c)) of
             Rejected msg \<Rightarrow>
               \<lparr>status = 500,
                body = JObj [(''success'', JBool False), (''error'', JStr msg)]\<rparr>
           | Resolved dat \<Rightarrow>
               \<lparr>status = 200,
                body = JObj [(''success'', JBool True), (''flaskResponse'', dat)]\<rparr>)"
    by (simp add: route_analyze_accepted [OF acc] or_string_def failure_def reply_def
        split: axios_result.split)
next
  fix c m code dat
  assume h: "file_part r = Some (''image'', c) \<and> raw_mode r = Some m \<and> m \<noteq> []
          \<and> net ''http://127.0.0.1:5001/frame''
                [FBuffer ''image'' c ''frame.jpg'' ''image/jpeg'', FField ''mode'' m] d
              = Answered code dat
          \<and> (code < 200 \<or> 300 \<le> code)"
  then have acc: "file_part r = Some (''image'', c)" by simp
  from h have "axios_post net ''http://127.0.0.1:5001/frame''
                [FBuffer ''image'' c ''frame.jpg'' ''image/jpeg'',
                 FField ''mode'' (or_string (raw_mode r) ''squat'')] d
        = Rejected (''Request failed with status code '' @ decimal code)"
    by (auto simp: axios_post_def or_string_def)
  with acc show "route_frame (axios_post net) d r =
          \<lparr>status = 500,
           body = JObj [(''success'', JBool False),
                        (''error'', JStr (''Request failed with status code '' @ decimal code))]\<rparr>"
    by (rule route_frame_rejected)
next
  fix c m u code dat
  assume h: "file_part r = Some (''video'', c) \<and> raw_mode r = Some m \<and> m \<noteq> []
          \<and> env = Some u \<and> CHR '':'' \<in> set u
          \<and> net (u @ ''/analyze'')
                [FStream ''video'' (''uploads/'' @ fresh), FField ''mode'' m]
                (d(''uploads/'' @ fresh \<mapsto> c))
              = Answered code dat
          \<and> (code < 200 \<or> 300 \<le> code)"
  then have acc: "file_part r = Some (''video'', c)" by simp
  from h have "axios_post net (pythonURL env @ ''/analyze'')
                [FStream ''video'' (''uploads/'' @ fresh),
                 FField ''mode'' (or_string (raw_mode r) ''squat'')]
                (d(''uploads/'' @ fresh \<mapsto> c))
        = Rejected (''Request failed with status code '' @ decimal code)"
    by (auto simp: axios_post_def or_string_def pythonURL_def)
  with acc show "snd (route_analyze env (axios_post net) fresh d r) =
          \<lparr>status = 500,
           body = JObj [(''success'', JBool False),
                        (''error'', JStr (''Request failed with status code '' @ decimal code))]\<rparr>"
    by (rule route_analyze_rejected)
qed

theorem missing_mode_is_squat_witness:
  "strict_server ''http://127.0.0.1:5001/frame''
     [FBuffer ''image'' [70] ''frame.jpg'' ''image/jpeg'', FField ''mode'' ''jumping'']
     empty_disk = Answered 400 (JObj [(''error'', JStr ''UnsupportedMode'')])
   \<and> route_frame (axios_post strict_server) empty_disk
       \<lparr>file_part = Some (''image'', [70]), raw_mode = Some ''jumping'', raw_imagePath = None\<rparr>
     = \<lparr>status = 500,
        body = JObj [(''success'', JBool False),
                     (''error'', JStr ''Request failed with status code 400'')]\<rparr>
   \<and> snd (route_analyze (Some ''http://localhost:5001'') (axios_post strict_server) ''a1''
          empty_disk
          \<lparr>file_part = Some (''video'', [70]), raw_mode = Some ''jumping'',
           raw_imagePath = None\<rparr>)
     = \<lparr>status = 500,
        body = JObj [(''success'', JBool False),
                     (''error'', JStr ''Request failed with status code 400'')]\<rparr>"
proof -
  let ?rf = "\<lparr>file_part = Some (''image'', [70]), raw_mode = Some ''jumping'',
              raw_imagePath = None\<rparr>"
  let ?rv = "\<lparr>file_part = Some (''video'', [70]), raw_mode = Some ''jumping'',
              raw_imagePath = None\<rparr>"
  let ?refusal = "JObj [(''error'', JStr ''UnsupportedMode'')]"
  have sf: "strict_server ''http://127.0.0.1:5001/frame''
     [FBuffer ''image'' [70] ''frame.jpg'' ''image/jpeg'', FField ''mode'' ''jumping'']
     empty_disk = Answered 400 ?refusal"
    by (simp add: strict_server_def)
  have f: "file_part ?rf = Some (''image'', [70]) \<and> raw_mode ?rf = Some ''jumping''
     \<and> ''jumping'' \<noteq> []
     \<and> strict_server ''http://127.0.0.1:5001/frame''
          [FBuffer ''image'' [70] ''frame.jpg'' ''image/jpeg'', FField ''mode'' ''jumping'']
          empty_disk = Answered 400 ?refusal
     \<and> ((400::nat) < 200 \<or> 300 \<le> (400::nat))"
    by (simp add: strict_server_def)
  have v: "file_part ?rv = Some (''video'', [70]) \<and> raw_mode ?rv = Some ''jumping''
     \<and> ''jumping'' \<noteq> []
     \<and> Some ''http://localhost:5001'' = Some ''http://localhost:5001''
     \<and> CHR '':'' \<in> set ''http://localhost:5001''
     \<and> strict_server (''http://localhost:5001'' @ ''/analyze'')
          [FStream ''video'' (''uploads/'' @ ''a1''), FField ''mode'' ''jumping'']
          (empty_disk(''uploads/'' @ ''a1'' \<mapsto> [70])) = Answered 400 ?refusal
     \<and> ((400::nat) < 200 \<or> 300 \<le> (400::nat))"
    by (simp add: strict_server_def)
  have rf: "route_frame (axios_post strict_server) empty_disk ?rf =
          \<lparr>status = 500,
           body = JObj [(''success'', JBool False),
                        (''error'', JStr (''Request failed with status code '' @ decimal 400))]\<rparr>"
    using missing_mode_is_squat [where r = ?rf and net = strict_server and d = empty_disk,
        THEN conjunct2, THEN conjunct2, THEN conjunct2, THEN conjunct2, THEN conjunct2,
        THEN conjunct2, THEN conjunct1, rule_format, OF f] .
  have rv: "snd (route_analyze (Some ''http://localhost:5001'') (axios_post strict_server) ''a1''
          empty_disk ?rv) =
          \<lparr>status = 500,
           body = JObj [(''success'', JBool False),
                        (''error'', JStr (''Request failed with status code '' @ decimal 400))]\<rparr>"
    using missing_mode_is_squat [where r = ?rv and net = strict_server and d = empty_disk
          and env = "Some ''http://localhost:5001''" and fresh = "''a1''",
        THEN conjunct2, THEN conjunct2, THEN conjunct2, THEN conjunct2, THEN conjunct2,
        THEN conjunct2, THEN conjunct2, rule_format, OF v] .
  from sf rf rv show ?thesis by (simp add: decimal_400)
qed

section \<open>The field name of a frame upload\<close>

text \<open>
  C4, as stated: a frame request that carries its file under another field name than
  \<open>image\<close>, as the webcam page's requests do (\<open>frame\<close>), reaches the controller with
  \<open>req.file\<close> undefined, and the caller receives a 500 error object. It does not hold:
  the request the page sends on a timer tick is refused by the upload middleware and
  answered 400 by the router's error middleware; the controller does not run.
\<close>

theorem frame_route_field_name_counterexample:
  "snd (page_run initial_page [ClickStartStop (Some 1), Tick True True])
     = [\<lparr>route = ''/api/video/frame'', upload_field = ''frame'', mode_field = ''squat''\<rparr>]
   \<and> route_frame mode_echo empty_disk
       (arriving \<lparr>route = ''/api/video/frame'', upload_field = ''frame'',
                  mode_field = ''squat''\<rparr> [255, 216])
     = \<lparr>status = 400, body = JObj [(''error'', JStr ''Unexpected field'')]\<rparr>"
  by (simp add: page_step_def live_effect_def video_mounted_def on_tick_def initial_page_def
      route_frame_refused arriving_def reply_def)

text \<open>
  C4, amended: the single-frame route takes the uploaded image from the field \<open>image\<close>
  only. A request without any file part reaches the controller with \<open>req.file\<close>
  undefined, the access to \<open>req.file.buffer\<close> throws and the caller receives the 500
  error object; a request that carries a file under another field name, as every frame
  request of the webcam page does (\<open>frame\<close>), is refused by the upload middleware and
  the caller receives the 400 error object \<open>{error: Unexpected field}\<close>. In both cases the
  caller receives an error object and no FrameVerdict.
\<close>

theorem frame_route_field_name:
  "(file_part r = None \<longrightarrow> route_frame post d r = failure (undefined_property ''buffer''))
   \<and> (\<forall>fld c. file_part r = Some (fld, c) \<and> fld \<noteq> ''image'' \<longrightarrow>
         route_frame post d r = reply 400 (JObj [(''error'', JStr ''Unexpected field'')]))
   \<and> (\<forall>q \<in> set (snd (page_step p e)). route q = ''/api/video/frame'' \<longrightarrow>
         route_frame post d (arriving q blob)
           = reply 400 (JObj [(''error'', JStr ''Unexpected field'')]))"
proof (intro conjI allI impI ballI)
  assume "file_part r = None"
  then show "route_frame post d r = failure (undefined_property ''buffer'')"
    by (rule route_frame_no_file)
next
  fix fld c
  assume "file_part r = Some (fld, c) \<and> fld \<noteq> ''image''"
  then show "route_frame post d r = reply 400 (JObj [(''error'', JStr ''Unexpected field'')])"
    by (simp add: route_frame_refused)
next
  fix q
  assume "q \<in> set (snd (page_step p e))" and "route q = ''/api/video/frame''"
  then have "upload_field q = ''frame''" by (rule page_frame_requests)
  then have "file_part (arriving q blob) = Some (''frame'', blob)"
    by (simp add: arriving_def)
  then show "route_frame post d (arriving q blob)
           = reply 400 (JObj [(''error'', JStr ''Unexpected field'')])"
    by (rule route_frame_refused) simp
qed

theorem frame_route_field_name_witness:
  "route_frame engine_down empty_disk
     \<lparr>file_part = None, raw_mode = Some ''squat'', raw_imagePath = None\<rparr>
     = failure (undefined_property ''buffer'')
   \<and> route_frame engine_down empty_disk
     \<lparr>file_part = Some (''frame'', [255, 216]), raw_mode = Some ''squat'', raw_imagePath = None\<rparr>
     = reply 400 (JObj [(''error'', JStr ''Unexpected field'')])
   \<and> \<lparr>route = ''/api/video/frame'', upload_field = ''frame'', mode_field = ''sitting''\<rparr>
       \<in> set (snd (page_step
            (initial_page\<lparr>recordingMode := ''sitting'', isRecording := True,
               liveVideoStream := Some 1, isLiveAnalysisActive := True,
               frameAnalysisInterval := Some \<lparr>delay_ms = 600, captured_mode = ''sitting''\<rparr>\<rparr>)
            (Tick True True)))
   \<and> route_frame engine_down empty_disk
       (arriving \<lparr>route = ''/api/video/frame'', upload_field = ''frame'',
                  mode_field = ''sitting''\<rparr> [255, 216])
     = reply 400 (JObj [(''error'', JStr ''Unexpected field'')])"
  using frame_route_field_name
    [where r = "\<lparr>file_part = None, raw_mode = Some ''squat'', raw_imagePath = None\<rparr>"
       and post = engine_down and d = empty_disk]
    frame_route_field_name
    [where r = "\<lparr>file_part = Some (''frame'', [255, 216]), raw_mode = Some ''squat'',
                 raw_imagePath = None\<rparr>"
       and post = engine_down and d = empty_disk and blob = "[255, 216]"
       and e = "Tick True True"
       and p = "initial_page\<lparr>recordingMode := ''sitting'', isRecording := True,
               liveVideoStream := Some 1, isLiveAnalysisActive := True,
               frameAnalysisInterval := Some \<lparr>delay_ms = 600, captured_mode = ''sitting''\<rparr>\<rparr>"]
  by (simp add: page_step_def live_effect_def video_mounted_def on_tick_def initial_page_def)


section \<open>The Rule Evaluator's score\<close>

lemma penalty_positive: "0 < penalty cfg"
  by (simp add: penalty_def)

lemma score_of_antimono: "0 \<le> k \<Longrightarrow> n \<le> n' \<Longrightarrow> score_of k n' \<le> score_of k n"
proof -
  assume k: "0 \<le> k" and "n \<le> n'"
  then have "(of_nat n :: rat) \<le> of_nat n'" by simp
  then have "k * of_nat n \<le> k * of_nat n'" using k by (rule mult_left_mono)
  then show ?thesis by (simp add: score_of_def)
qed

lemma score_of_100: "0 < k \<Longrightarrow> (score_of k n = 100) = (n = 0)"
proof (cases n)
  case 0
  then show ?thesis by (simp add: score_of_def)
next
  case (Suc n')
  assume "0 < k"
  then have "0 < k * of_nat (Suc n')" by (simp del: of_nat_Suc)
  then have "score_of k (Suc n') < 100" by (simp add: score_of_def del: of_nat_Suc)
  with Suc show ?thesis by simp
qed

lemma evaluate_valid:
  "list_ex valid aset \<Longrightarrow>
   evaluate cfg m aset =
     \<lparr>v_status = band (score_of (penalty cfg) (length (issues_of (rule_table cfg m) aset))),
      v_details = issues_of (rule_table cfg m) aset,
      v_score = Some (score_of (penalty cfg) (length (issues_of (rule_table cfg m) aset)))\<rparr>"
  by (simp add: evaluate_def Let_def)

lemma evaluate_invalid:
  "\<not> list_ex valid aset \<Longrightarrow>
   evaluate cfg m aset = \<lparr>v_status = AnalysisError, v_details = [], v_score = None\<rparr>"
  by (simp add: evaluate_def)

lemma issues_of_none:
  "(\<forall>r \<in> set rules. \<not> violated aset r) \<Longrightarrow> issues_of rules aset = []"
  by (simp add: issues_of_def filter_empty_conv)

lemma measured_valid: "measured aset j = Some a \<Longrightarrow> list_ex valid aset"
  by (auto simp: measured_def list_ex_iff find_Some_iff split: option.splits if_splits)

lemma not_violated_invalid: "\<not> list_ex valid aset \<Longrightarrow> \<not> violated aset r"
  by (auto simp: violated_def split: option.splits dest: measured_valid)

text \<open>
  C5, as stated: for every angle set and mode, \<open>evaluate\<close> computes the score
  \<open>max(0, 100 - k * issueCount)\<close>, so that zero rule violations give the score 100 and
  the status "Good Form". It does not hold for an angle set without any valid
  measurement: no rule is violated, and the verdict is "Analysis Error" with a null score.
\<close>

theorem evaluate_score_counterexample:
  "issues_of (rule_table sample_config Squat)
     [\<lparr>joint = ''knee'', degrees = 70, valid = False\<rparr>] = []
   \<and> v_score (evaluate sample_config Squat [\<lparr>joint = ''knee'', degrees = 70, valid = False\<rparr>])
       = None
   \<and> v_status (evaluate sample_config Squat [\<lparr>joint = ''knee'', degrees = 70, valid = False\<rparr>])
       = AnalysisError"
  by (simp add: evaluate_def issues_of_def sample_config_def violated_def measured_def)

text \<open>
  C5, amended: for every mode and every angle set that holds at least one valid
  measurement, \<open>evaluate\<close> computes the score \<open>max(0, 100 - k * issueCount)\<close> for the
  fixed penalty \<open>k\<close>; the score does not increase when the issue count increases, it is
  100 exactly when there are zero issues, and zero rule violations give the score 100
  and the status "Good Form". For every angle set without a valid measurement no rule is
  violated and \<open>evaluate\<close> gives "Analysis Error" and a null score.
\<close>

theorem evaluate_score:
  assumes a: "list_ex valid aset" and b: "list_ex valid bset" and c: "\<not> list_ex valid cset"
  shows "0 < penalty cfg
     \<and> v_score (evaluate cfg m aset)
         = Some (max 0 (100 - penalty cfg * of_nat (length (v_details (evaluate cfg m aset)))))
     \<and> (length (v_details (evaluate cfg m aset)) \<le> length (v_details (evaluate cfg m' bset)) \<longrightarrow>
          (\<exists>sa sb. v_score (evaluate cfg m aset) = Some sa
             \<and> v_score (evaluate cfg m' bset) = Some sb \<and> sb \<le> sa))
     \<and> ((v_score (evaluate cfg m aset) = Some 100) = (v_details (evaluate cfg m aset) = []))
     \<and> ((\<forall>r \<in> set (rule_table cfg m). \<not> violated aset r) \<longrightarrow>
          v_score (evaluate cfg m aset) = Some 100 \<and> v_status (evaluate cfg m aset) = GoodForm)
     \<and> (\<forall>r \<in> set (rule_table cfg m). \<not> violated cset r)
     \<and> v_status (evaluate cfg m cset) = AnalysisError
     \<and> v_score (evaluate cfg m cset) = None"
proof (intro conjI impI ballI)
  show "0 < penalty cfg" by (rule penalty_positive)
next
  show "v_score (evaluate cfg m aset)
         = Some (max 0 (100 - penalty cfg * of_nat (length (v_details (evaluate cfg m aset)))))"
    by (simp add: evaluate_valid [OF a] score_of_def)
next
  assume "length (v_details (evaluate cfg m aset)) \<le> length (v_details (evaluate cfg m' bset))"
  then have "length (issues_of (rule_table cfg m) aset) \<le> length (issues_of (rule_table cfg m') bset)"
    by (simp add: evaluate_valid [OF a] evaluate_valid [OF b])
  moreover have "0 \<le> penalty cfg" using penalty_positive [of cfg] by simp
  ultimately have "score_of (penalty cfg) (length (issues_of (rule_table cfg m') bset))
             \<le> score_of (penalty cfg) (length (issues_of (rule_table cfg m) aset))"
    by (rule score_of_antimono [rotated])
  then show "\<exists>sa sb. v_score (evaluate cfg m aset) = Some sa
             \<and> v_score (evaluate cfg m' bset) = Some sb \<and> sb \<le> sa"
    by (simp add: evaluate_valid [OF a] evaluate_valid [OF b])
next
  show "(v_score (evaluate cfg m aset) = Some 100) = (v_details (evaluate cfg m aset) = [])"
    by (simp add: evaluate_valid [OF a] score_of_100 [OF penalty_positive])
next
  assume "\<forall>r \<in> set (rule_table cfg m). \<not> violated aset r"
  then have "issues_of (rule_table cfg m) aset = []" by (rule issues_of_none)
  then show "v_score (evaluate cfg m aset) = Some 100" "v_status (evaluate cfg m aset) = GoodForm"
    by (simp_all add: evaluate_valid [OF a] score_of_def band_def)
next
  fix r
  show "\<not> violated cset r" using c by (rule not_violated_invalid)
next
  show "v_status (evaluate cfg m cset) = AnalysisError" "v_score (evaluate cfg m cset) = None"
    by (simp_all add: evaluate_invalid [OF c])
qed

theorem evaluate_score_witness:
  "list_ex valid [\<lparr>joint = ''knee'', degrees = 120, valid = True\<rparr>]
   \<and> list_ex valid [\<lparr>joint = ''knee'', degrees = 70, valid = True\<rparr>,
                    \<lparr>joint = ''back'', degrees = 100, valid = True\<rparr>]
   \<and> \<not> list_ex valid [\<lparr>joint = ''knee'', degrees = 70, valid = False\<rparr>]
   \<and> penalty sample_config = 20
   \<and> list_all (\<lambda>r. \<not> violated [\<lparr>joint = ''knee'', degrees = 120, valid = True\<rparr>] r)
        (rule_table sample_config Squat)
   \<and> v_score (evaluate sample_config Squat [\<lparr>joint = ''knee'', degrees = 120, valid = True\<rparr>])
       = Some 100
   \<and> v_status (evaluate sample_config Squat [\<lparr>joint = ''knee'', degrees = 120, valid = True\<rparr>])
       = GoodForm
   \<and> (\<exists>sa sb. v_score (evaluate sample_config Squat
                  [\<lparr>joint = ''knee'', degrees = 120, valid = True\<rparr>]) = Some sa
        \<and> v_score (evaluate sample_config Squat
                  [\<lparr>joint = ''knee'', degrees = 70, valid = True\<rparr>,
                   \<lparr>joint = ''back'', degrees = 100, valid = True\<rparr>]) = Some sb
        \<and> sb \<le> sa)
   \<and> v_status (evaluate sample_config Squat [\<lparr>joint = ''knee'', degrees = 70, valid = False\<rparr>])
       = AnalysisError
   \<and> v_score (evaluate sample_config Squat [\<lparr>joint = ''knee'', degrees = 70, valid = False\<rparr>])
       = None"
proof -
  let ?a = "[\<lparr>joint = ''knee'', degrees = 120, valid = True\<rparr>]"
  let ?b = "[\<lparr>joint = ''knee'', degrees = 70, valid = True\<rparr>,
             \<lparr>joint = ''back'', degrees = 100, valid = True\<rparr>]"
  let ?c = "[\<lparr>joint = ''knee'', degrees = 70, valid = False\<rparr>]"
  have a: "list_ex valid ?a" and b: "list_ex valid ?b" and c: "\<not> list_ex valid ?c"
    by simp_all
  have k: "penalty sample_config = 20" by (simp add: penalty_def sample_config_def)
  have nv: "\<forall>r \<in> set (rule_table sample_config Squat). \<not> violated ?a r"
    by (simp add: sample_config_def violated_def measured_def)
  then have nv': "list_all (\<lambda>r. \<not> violated ?a r) (rule_table sample_config Squat)"
    by (simp add: list_all_iff)
  have len: "length (v_details (evaluate sample_config Squat ?a))
             \<le> length (v_details (evaluate sample_config Squat ?b))"
    by (simp add: evaluate_def Let_def issues_of_def sample_config_def violated_def
        measured_def)
  from evaluate_score [OF a b c, of sample_config Squat Squat] k nv nv' len a b c
  show ?thesis by blast
qed

section \<open>A frame without a subject\<close>

lemma analyzeFrame_no_detection:
  "detect src img = None \<Longrightarrow>
   analyzeFrame cfg src img m =
     \<lparr>v_status = AnalysisError, v_details = [''No pose detected''], v_score = None\<rparr>"
  by (simp add: analyzeFrame_def)

text \<open>
  C3. When the landmark source finds no subject in the image of a single-frame request,
  the failure is recovered into the FrameVerdict with status "Analysis Error", the issue
  "No pose detected" and a null score. \<open>analyzeFrame\<close> returns it as its value, the
  engine answers with it, and the relay delivers it with status 200, not as a
  transport-level failure.
\<close>

theorem no_detection_is_a_verdict:
  assumes upload: "file_part r = Some (''image'', c)"
    and supported: "parse_mode (or_string (raw_mode r) ''squat'') = Some m"
    and readable: "read_image src c = Some img"
    and nobody: "detect src img = None"
  shows "analyzeFrame cfg src img m =
           \<lparr>v_status = AnalysisError, v_details = [''No pose detected''], v_score = None\<rparr>
     \<and> engine_frame cfg src c (or_string (raw_mode r) ''squat'') =
           Inr \<lparr>v_status = AnalysisError, v_details = [''No pose detected''], v_score = None\<rparr>
     \<and> route_frame (engine_transport cfg src) d r =
           \<lparr>status = 200,
            body = JObj [(''success'', JBool True),
                         (''feedback'',
                          JObj [(''status'', JStr ''Analysis Error''),
                                (''score'', JNull),
                                (''details'', JArr [JStr ''No pose detected''])])]\<rparr>"
proof -
  have v: "analyzeFrame cfg src img m =
           \<lparr>v_status = AnalysisError, v_details = [''No pose detected''], v_score = None\<rparr>"
    using nobody by (rule analyzeFrame_no_detection)
  have e: "engine_frame cfg src c (or_string (raw_mode r) ''squat'') =
           Inr \<lparr>v_status = AnalysisError, v_details = [''No pose detected''], v_score = None\<rparr>"
    by (simp add: engine_frame_def supported readable v)
  have "route_frame (engine_transport cfg src) d r =
           reply 200 (JObj [(''success'', JBool True),
             (''feedback'', encode_verdict
                \<lparr>v_status = AnalysisError, v_details = [''No pose detected''], v_score = None\<rparr>)])"
    by (simp add: route_frame_accepted [OF upload] engine_transport_frame e)
  then have "route_frame (engine_transport cfg src) d r =
           \<lparr>status = 200,
            body = JObj [(''success'', JBool True),
                         (''feedback'',
                          JObj [(''status'', JStr ''Analysis Error''),
                                (''score'', JNull),
                                (''details'', JArr [JStr ''No pose detected''])])]\<rparr>"
    by (simp add: reply_def encode_verdict_def)
  with v e show ?thesis by simp
qed

theorem no_detection_is_a_verdict_witness:
  "file_part \<lparr>file_part = Some (''image'', [0]), raw_mode = Some ''sitting'',
               raw_imagePath = None\<rparr> = Some (''image'', [0])
   \<and> parse_mode (or_string (Some ''sitting'') ''squat'') = Some Sitting
   \<and> read_image sample_source [0] = Some None
   \<and> detect sample_source None = None
   \<and> route_frame (engine_transport sample_config sample_source) empty_disk
        \<lparr>file_part = Some (''image'', [0]), raw_mode = Some ''sitting'', raw_imagePath = None\<rparr>
      = \<lparr>status = 200,
         body = JObj [(''success'', JBool True),
                      (''feedback'',
                       JObj [(''status'', JStr ''Analysis Error''),
                             (''score'', JNull),
                             (''details'', JArr [JStr ''No pose detected''])])]\<rparr>"
proof -
  let ?r = "\<lparr>file_part = Some (''image'', [0]), raw_mode = Some ''sitting'',
              raw_imagePath = None\<rparr>"
  have h1: "file_part ?r = Some (''image'', [0])" by simp
  have h2: "parse_mode (or_string (raw_mode ?r) ''squat'') = Some Sitting"
    by (simp add: parse_mode_def or_string_def)
  have h3: "read_image sample_source [0] = Some None"
    by (simp add: sample_source_def picture_def)
  have h4: "detect sample_source None = None"
    by (simp add: sample_source_def)
  from no_detection_is_a_verdict [OF h1 h2 h3 h4, of sample_config empty_disk] h1 h2 h3 h4
  show ?thesis by simp
qed

section \<open>The result of a video request\<close>





section \<open>The mode of the page's requests\<close>

lemma handle_timer: "frameAnalysisInterval (fst (handle p e)) = frameAnalysisInterval p"
  by (cases e)
     (auto simp: upload_started_def on_video_response_def upload_failed_def
        on_frame_response_def live_failed_def Let_def
        split: option.splits video_outcome.splits frame_outcome.splits)

lemma handle_mode:
  "offered (recordingMode p) \<Longrightarrow> offered (recordingMode (fst (handle p e)))"
  by (cases e)
     (auto simp: offered_def upload_started_def on_video_response_def upload_failed_def
        on_frame_response_def live_failed_def Let_def
        split: option.splits video_outcome.splits frame_outcome.splits)

lemma handle_requests:
  "q \<in> set (snd (handle p e)) \<Longrightarrow> mode_invariant p \<Longrightarrow> mode_field q = recordingMode p"
  by (cases e)
     (auto simp: mode_invariant_def upload_started_def on_tick_def
        split: option.splits if_splits)

lemma step_invariant: "mode_invariant p \<Longrightarrow> mode_invariant (fst (page_step p e))"
proof -
  assume inv: "mode_invariant p"
  let ?q = "fst (handle p e)"
  have m: "offered (recordingMode ?q)"
    using inv by (simp add: mode_invariant_def handle_mode)
  have t: "frameAnalysisInterval ?q = frameAnalysisInterval p" by (rule handle_timer)
  show ?thesis
  proof (cases "isLiveAnalysisActive p = isLiveAnalysisActive ?q
         \<and> liveVideoStream p = liveVideoStream ?q \<and> recordingMode p = recordingMode ?q")
    case True
    then have "fst (page_step p e) = ?q" by (simp add: page_step_def live_effect_def)
    with inv m t True show ?thesis
      by (auto simp: mode_invariant_def split: option.splits)
  next
    case False
    then have "fst (page_step p e) =
       ?q\<lparr>frameAnalysisInterval :=
            (if isLiveAnalysisActive ?q \<and> video_mounted ?q \<and> liveVideoStream ?q \<noteq> None
             then Some \<lparr>delay_ms = 600, captured_mode = recordingMode ?q\<rparr> else None)\<rparr>"
      by (auto simp: page_step_def live_effect_def)
    with m show ?thesis by (simp add: mode_invariant_def)
  qed
qed

lemma step_requests:
  "mode_invariant p \<Longrightarrow> q \<in> set (snd (page_step p e)) \<Longrightarrow> mode_field q = recordingMode p"
  by (simp add: page_step_def handle_requests)

lemma initial_invariant: "mode_invariant initial_page"
  by (simp add: mode_invariant_def initial_page_def offered_def)

lemma run_invariant: "mode_invariant p \<Longrightarrow> mode_invariant (fst (page_run p es))"
  by (induction es arbitrary: p) (simp_all add: step_invariant)

lemma run_requests:
  "mode_invariant p \<Longrightarrow> q \<in> set (snd (page_run p es)) \<Longrightarrow> offered (mode_field q)"
proof (induction es arbitrary: p)
  case Nil
  then show ?case by simp
next
  case (Cons e es)
  from Cons.prems(2) consider
    (now) "q \<in> set (snd (page_step p e))" | (later) "q \<in> set (snd (page_run (fst (page_step p e)) es))"
    by auto
  then show ?case
  proof cases
    case now
    with Cons.prems(1) have "mode_field q = recordingMode p" by (simp add: step_requests)
    with Cons.prems(1) show ?thesis by (simp add: mode_invariant_def)
  next
    case later
    from Cons.prems(1) have "mode_invariant (fst (page_step p e))" by (rule step_invariant)
    then show ?thesis using later by (rule Cons.IH)
  qed
qed

text \<open>
  C9. Every analysis request the page sends carries the mode \<open>squat\<close> or \<open>sitting\<close>:
  the recording mode starts as \<open>squat\<close>, is only ever set to one of the two, and is what
  each frame and video request appends as its mode field.
\<close>

theorem requests_carry_recording_mode:
  "(recordingMode (fst (page_run initial_page es)) = ''squat''
      \<or> recordingMode (fst (page_run initial_page es)) = ''sitting'')
   \<and> (\<forall>q \<in> set (snd (page_run initial_page es)).
         mode_field q = ''squat'' \<or> mode_field q = ''sitting'')
   \<and> (\<forall>q \<in> set (snd (page_step (fst (page_run initial_page es)) e)).
         mode_field q = recordingMode (fst (page_run initial_page es)))"
proof (intro conjI ballI)
  have inv: "mode_invariant (fst (page_run initial_page es))"
    by (rule run_invariant) (rule initial_invariant)
  then show "recordingMode (fst (page_run initial_page es)) = ''squat''
      \<or> recordingMode (fst (page_run initial_page es)) = ''sitting''"
    by (simp add: mode_invariant_def offered_def)
  fix q
  assume "q \<in> set (snd (page_step (fst (page_run initial_page es)) e))"
  with inv show "mode_field q = recordingMode (fst (page_run initial_page es))"
    by (rule step_requests)
next
  fix q
  assume "q \<in> set (snd (page_run initial_page es))"
  with initial_invariant have "offered (mode_field q)" by (rule run_requests)
  then show "mode_field q = ''squat'' \<or> mode_field q = ''sitting''"
    by (simp add: offered_def)
qed

theorem requests_carry_recording_mode_witness:
  "\<lparr>route = ''/api/video/frame'', upload_field = ''frame'', mode_field = ''sitting''\<rparr>
     \<in> set (snd (page_run initial_page
          [ClickSitting, ClickStartStop (Some 1), Tick True True, ClickUploadTab,
           SelectVideo ''blob:1'']))
   \<and> \<lparr>route = ''/api/video/analyze'', upload_field = ''video'', mode_field = ''sitting''\<rparr>
     \<in> set (snd (page_run initial_page
          [ClickSitting, ClickStartStop (Some 1), Tick True True, ClickUploadTab,
           SelectVideo ''blob:1'']))
   \<and> (mode_field \<lparr>route = ''/api/video/frame'', upload_field = ''frame'',
                    mode_field = ''sitting''\<rparr> = ''squat''
      \<or> mode_field \<lparr>route = ''/api/video/frame'', upload_field = ''frame'',
                    mode_field = ''sitting''\<rparr> = ''sitting'')"
proof -
  let ?es = "[ClickSitting, ClickStartStop (Some 1), Tick True True, ClickUploadTab,
           SelectVideo ''blob:1'']"
  have sent: "snd (page_run initial_page ?es) =
    [\<lparr>route = ''/api/video/frame'', upload_field = ''frame'', mode_field = ''sitting''\<rparr>,
     \<lparr>route = ''/api/video/analyze'', upload_field = ''video'', mode_field = ''sitting''\<rparr>]"
    by (simp add: page_step_def live_effect_def video_mounted_def on_tick_def initial_page_def
        upload_started_def)
  from requests_carry_recording_mode [of ?es] sent show ?thesis
    by simp
qed


section \<open>Live frames and their responses\<close>

lemma tick_step: "page_step p (Tick ready blob) = (p, on_tick p ready blob)"
  by (simp add: page_step_def live_effect_def)

lemma tick_sends:
  "frameAnalysisInterval p = Some t \<Longrightarrow> video_mounted p \<Longrightarrow>
   frames_sent (on_tick p True True) = 1"
  by (simp add: on_tick_def frames_sent_def)

lemma ticks_in_flight:
  "frameAnalysisInterval p = Some t \<Longrightarrow> video_mounted p \<Longrightarrow>
   in_flight p k (replicate n (Tick True True)) = k + n"
  by (induction n arbitrary: k) (simp_all add: tick_step tick_sends)

lemma step_sends_at_most_one: "frames_sent (snd (page_step p e)) \<le> 1"
  by (cases e)
     (simp_all add: page_step_def frames_sent_def on_tick_def upload_started_def
        split: option.split)

text \<open>
  C8, as stated: in live webcam mode the caller sends one frame per tick of a fixed
  polling interval and applies backpressure, sending a new frame only once the previous
  response has returned. The second part does not hold: after two ticks without a
  response, two frame requests are in flight.
\<close>

theorem live_frames_without_backpressure_counterexample:
  "in_flight initial_page 0 [ClickStartStop (Some 1), Tick True True, Tick True True] = 2"
  by (simp add: page_step_def live_effect_def video_mounted_def on_tick_def initial_page_def
      frames_sent_def)

text \<open>
  C8, amended: in live webcam mode the page sends at most one single-frame request per
  tick of its timer, whose delay is fixed at 600 ms, and it applies no backpressure: a
  tick sends its frame whether or not earlier responses have returned, so \<open>n\<close> ticks
  add \<open>n\<close> requests to those in flight.
\<close>

theorem live_frames_without_backpressure:
  "frames_sent (snd (page_step p e)) \<le> 1
   \<and> (\<forall>t. frameAnalysisInterval (fst (page_run initial_page es)) = Some t \<longrightarrow> delay_ms t = 600)
   \<and> (\<forall>t. frameAnalysisInterval p = Some t \<and> video_mounted p \<longrightarrow>
         in_flight p k (replicate n (Tick True True)) = k + n)"
proof (intro conjI allI impI)
  show "frames_sent (snd (page_step p e)) \<le> 1" by (rule step_sends_at_most_one)
next
  fix t
  assume t: "frameAnalysisInterval (fst (page_run initial_page es)) = Some t"
  have "mode_invariant (fst (page_run initial_page es))"
    by (rule run_invariant) (rule initial_invariant)
  with t show "delay_ms t = 600" by (simp add: mode_invariant_def)
next
  fix t
  assume "frameAnalysisInterval p = Some t \<and> video_mounted p"
  then show "in_flight p k (replicate n (Tick True True)) = k + n"
    by (simp add: ticks_in_flight)
qed

theorem live_frames_without_backpressure_witness:
  "frameAnalysisInterval (fst (page_run initial_page [ClickStartStop (Some 1)]))
     = Some \<lparr>delay_ms = 600, captured_mode = ''squat''\<rparr>
   \<and> video_mounted (fst (page_run initial_page [ClickStartStop (Some 1)]))
   \<and> delay_ms \<lparr>delay_ms = 600, captured_mode = ''squat''\<rparr> = 600
   \<and> in_flight (fst (page_run initial_page [ClickStartStop (Some 1)])) 0
        (replicate 3 (Tick True True)) = 0 + 3"
proof -
  let ?p = "fst (page_run initial_page [ClickStartStop (Some 1)])"
  have t: "frameAnalysisInterval ?p = Some \<lparr>delay_ms = 600, captured_mode = ''squat''\<rparr>"
    by (simp add: page_step_def live_effect_def video_mounted_def initial_page_def)
  have v: "video_mounted ?p"
    by (simp add: page_step_def live_effect_def video_mounted_def initial_page_def)
  from live_frames_without_backpressure
    [where p = ?p and es = "[ClickStartStop (Some 1)]" and k = 0 and n = 3] t v
  show ?thesis by blast
qed

section \<open>The score of a failed analysis\<close>

text \<open>
  C7. Every call site that produces a verdict's score is to hold one convention: a
  score that was not provided is null, never an implicit 0. The page holds it in the
  live callback (a failed frame gives null, and so does a score of 0) and breaks it in
  \<open>handleVideoUpload\<close>, whose \<open>catch\<close> branch stores the score 0 for an analysis that
  provided none, and whose success branch keeps a score of 0 as 0.
\<close>

theorem score_of_a_failed_analysis:
  "liveFeedback (fst (page_step initial_page (VideoResponse (VideoFailed ''Analysis failed''))))
     = Some \<lparr>fb_status = Some (JStr ''Analysis Error''),
             fb_details = Some (JArr [JStr ''Analysis failed'']),
             fb_score = Some (JNum 0)\<rparr>
   \<and> liveFeedback (fst (page_step initial_page (FrameResponse (FrameFailed None ''Network Error''))))
     = Some \<lparr>fb_status = Some (JStr ''Analysis Error''),
             fb_details = Some (JArr [JStr ''Network Error'']),
             fb_score = Some JNull\<rparr>
   \<and> liveFeedback (fst (page_step initial_page
        (FrameResponse (FrameOk (JObj [(''status'', JStr ''Poor Form''), (''score'', JNum 0),
                                       (''details'', JArr [JStr ''back not straight''])])))))
     = Some \<lparr>fb_status = Some (JStr ''Poor Form''),
             fb_details = Some (JArr [JStr ''back not straight'']),
             fb_score = Some JNull\<rparr>
   \<and> liveFeedback (fst (page_step initial_page
        (VideoResponse (VideoOk (JObj [(''overall_analysis'',
           JObj [(''status'', JStr ''Poor Form''), (''score'', JNum 0),
                 (''details'', JArr [JStr ''back not straight''])])])))))
     = Some \<lparr>fb_status = Some (JStr ''Poor Form''),
             fb_details = Some (JArr [JStr ''back not straight'']),
             fb_score = Some (JNum 0)\<rparr>"
  by (simp add: page_step_def live_effect_def initial_page_def on_video_response_def
      upload_failed_def on_frame_response_def live_failed_def live_error_message_def
      or_else_def)


end
